theory Spec2Isabelle
  imports Complex_Main
begin

section \<open>Python values used by the repository\<close>

text \<open>
  A Python \<open>str\<close> is a sequence of Unicode code points, and \<open>len\<close>, slicing,
  \<open>endswith\<close> and \<open>strip\<close> all count code points. A string is therefore a list
  of code points (natural numbers); \<open>py_str\<close> turns an ASCII literal into one.
\<close>

type_synonym pystr = "nat list"

definition py_str :: "string \<Rightarrow> pystr" where
  "py_str s = map of_char s"

text \<open>
  The characters that \<open>str.strip()\<close> and \<open>str.rstrip()\<close> remove when called
  without an argument: the code points for which CPython's \<open>str.isspace\<close> holds.
\<close>

definition py_isspace :: "nat \<Rightarrow> bool" where
  "py_isspace c =
     ((9 \<le> c \<and> c \<le> 13) \<or> (28 \<le> c \<and> c \<le> 32) \<or> c = 133 \<or> c = 160 \<or> c = 5760
      \<or> (8192 \<le> c \<and> c \<le> 8202) \<or> c = 8232 \<or> c = 8233 \<or> c = 8239 \<or> c = 8287
      \<or> c = 12288)"

definition rstrip :: "pystr \<Rightarrow> pystr" where
  "rstrip s = rev (dropWhile py_isspace (rev s))"

definition lstrip :: "pystr \<Rightarrow> pystr" where
  "lstrip s = dropWhile py_isspace s"

definition strip :: "pystr \<Rightarrow> pystr" where
  "strip s = lstrip (rstrip s)"

text \<open>\<open>s.endswith(suffix)\<close>; the empty suffix ends every string.\<close>

definition endswith :: "'a list \<Rightarrow> 'a list \<Rightarrow> bool" where
  "endswith s suffix =
     (length suffix \<le> length s \<and> drop (length s - length suffix) s = suffix)"

text \<open>
  The slice \<open>v[start:]\<close> of a list, string or one-dimensional tensor, for any integer
  \<open>start\<close>: a negative start counts from the end, and both ends are clamped to the
  sequence. In particular \<open>v[-0:]\<close> is \<open>v[0:]\<close>, the whole of \<open>v\<close>.
\<close>

definition slice_from :: "int \<Rightarrow> 'a list \<Rightarrow> 'a list" where
  "slice_from start v =
     (let n = int (length v);
          s = (if start < 0 then max 0 (start + n) else min start n)
      in drop (nat s) v)"

text \<open>The exceptions the modelled code can raise.\<close>

datatype error =
    IndexError
  | AssertionError
  | NotImplementedError
  | ZeroDivisionError
  | RuntimeError
  | EOFError

text \<open>\<open>xs[i]\<close> on a Python list: negative indices count from the end.\<close>

definition py_index :: "'a list \<Rightarrow> int \<Rightarrow> error + 'a" where
  "py_index xs i =
     (if 0 \<le> i \<and> i < int (length xs) then Inr (xs ! nat i)
      else if - int (length xs) \<le> i \<and> i < 0 then Inr (xs ! nat (int (length xs) + i))
      else Inl IndexError)"

section \<open>The dataset adapter (\<open>verl/utils/dataset/sft_dataset.py\<close>)\<close>

text \<open>A chat turn: the dictionary \<open>{"role": ..., "content": ...}\<close>.\<close>

record message =
  role :: pystr
  content :: pystr

text \<open>
  What \<open>GSM8KDataset\<close> uses of a \<open>PreTrainedTokenizer\<close>. The chat template and
  the encoder belong to the tokenizer that is loaded at run time, so they are fields here:
  \<open>apply_chat_template tok messages add_generation_prompt\<close> is the call with
  \<open>tokenize=False\<close>, and \<open>encode tok s\<close> the call with
  \<open>add_special_tokens=False\<close>.
\<close>

record tokenizer =
  apply_chat_template :: "message list \<Rightarrow> bool \<Rightarrow> pystr"
  encode :: "pystr \<Rightarrow> int list"
  eos_token :: pystr
  pad_token :: "pystr option"

text \<open>The dictionary of four one-dimensional tensors that \<open>__getitem__\<close> returns.\<close>

record model_inputs =
  input_ids :: "int list"
  attention_mask :: "int list"
  position_ids :: "int list"
  loss_mask :: "int list"

text \<open>
  The dataset object: its tokenizer, \<open>max_seq_len\<close> and the loaded split, whose
  columns \<open>"question"\<close> and \<open>"answer"\<close> have one entry per example.
\<close>

record gsm8k_dataset =
  tokenizer :: tokenizer
  max_seq_len :: int
  question :: "pystr list"
  answer :: "pystr list"

definition messages_of :: "pystr \<Rightarrow> pystr \<Rightarrow> message list" where
  "messages_of q a =
     [\<lparr>role = py_str ''user'', content = q\<rparr>, \<lparr>role = py_str ''assistant'', content = a\<rparr>]"

text \<open>Lines 38 to 41: the prompt rendering and the response string.\<close>

definition prompt_str :: "tokenizer \<Rightarrow> pystr \<Rightarrow> pystr \<Rightarrow> pystr" where
  "prompt_str tok q a = apply_chat_template tok (butlast (messages_of q a)) True"

definition response_suffix :: "tokenizer \<Rightarrow> pystr \<Rightarrow> pystr \<Rightarrow> pystr" where
  "response_suffix tok q a =
     slice_from (int (length (prompt_str tok q a)))
       (apply_chat_template tok (messages_of q a) False)"

definition response_str :: "tokenizer \<Rightarrow> pystr \<Rightarrow> pystr \<Rightarrow> pystr" where
  "response_str tok q a =
     (let r = response_suffix tok q a
      in if \<not> endswith (rstrip r) (eos_token tok) then r @ eos_token tok else r)"

text \<open>Lines 43 and 44.\<close>

definition prompt_ids :: "tokenizer \<Rightarrow> pystr \<Rightarrow> pystr \<Rightarrow> int list" where
  "prompt_ids tok q a = encode tok (prompt_str tok q a)"

definition response_ids :: "tokenizer \<Rightarrow> pystr \<Rightarrow> pystr \<Rightarrow> int list" where
  "response_ids tok q a = encode tok (response_str tok q a)"

text \<open>Lines 45 to 54: the four tensors before padding or truncation.\<close>

definition build_model_inputs :: "int list \<Rightarrow> int list \<Rightarrow> model_inputs" where
  "build_model_inputs p_ids r_ids =
     (let ids = p_ids @ r_ids in
      \<lparr>input_ids = ids,
       attention_mask = map (\<lambda>_. 1) ids,
       position_ids = map int [0 ..< length ids],
       loss_mask = replicate (length p_ids) 0 @ replicate (length r_ids) 1\<rparr>)"

text \<open>\<open>F.pad(v, (0, pad_length))\<close>: \<open>pad_length\<close> zeros on the right.\<close>

definition pad :: "int list \<Rightarrow> int \<Rightarrow> int list" where
  "pad v pad_length = v @ replicate (nat pad_length) 0"

text \<open>The comprehension \<open>{k: f(v) for k, v in model_inputs.items()}\<close>.\<close>

definition map_items :: "(int list \<Rightarrow> int list) \<Rightarrow> model_inputs \<Rightarrow> model_inputs" where
  "map_items f m =
     \<lparr>input_ids = f (input_ids m),
      attention_mask = f (attention_mask m),
      position_ids = f (position_ids m),
      loss_mask = f (loss_mask m)\<rparr>"

text \<open>Lines 56 to 60.\<close>

definition pad_or_truncate :: "int \<Rightarrow> model_inputs \<Rightarrow> model_inputs" where
  "pad_or_truncate msl m =
     (if int (length (input_ids m)) < msl
      then let pad_length = msl - int (length (input_ids m))
           in map_items (\<lambda>v. pad v pad_length) m
      else map_items (\<lambda>v. slice_from (- msl) v) m)"

text \<open>The untruncated tensors of one question and answer.\<close>

definition untruncated :: "tokenizer \<Rightarrow> pystr \<Rightarrow> pystr \<Rightarrow> model_inputs" where
  "untruncated tok q a = build_model_inputs (prompt_ids tok q a) (response_ids tok q a)"

definition getitem :: "gsm8k_dataset \<Rightarrow> int \<Rightarrow> error + model_inputs" where
  "getitem self index =
     (case py_index (question self) index of
        Inl e \<Rightarrow> Inl e
      | Inr q \<Rightarrow>
          (case py_index (answer self) index of
             Inl e \<Rightarrow> Inl e
           | Inr a \<Rightarrow> Inr (pad_or_truncate (max_seq_len self) (untruncated (tokenizer self) q a))))"

text \<open>\<open>__len__\<close>: the number of examples of the split.\<close>

definition len :: "gsm8k_dataset \<Rightarrow> nat" where
  "len self = length (question self)"

text \<open>
  An index that the loaded split has: both columns of a split have \<open>len\<close> entries, and
  the data loader asks for \<open>0 \<le> index < len\<close> (Python also takes \<open>-len \<le> index < 0\<close>).
\<close>

definition valid_index :: "gsm8k_dataset \<Rightarrow> int \<Rightarrow> bool" where
  "valid_index self index =
     (length (answer self) = length (question self) \<and> - int (len self) \<le> index \<and> index < int (len self))"

text \<open>
  A small tokenizer for the worked examples: the user turn is rendered as
  \<open>U:<content>\n\<close>, the generation prompt is \<open>A:\<close>, an assistant turn is
  \<open>A:<content></s>\n\<close>, and every code point is one token. Its shape (the
  end-of-sequence marker followed by a newline) is that of ChatML templates.
\<close>

definition example_render :: "message \<Rightarrow> pystr" where
  "example_render m =
     (if role m = py_str ''user'' then py_str ''U:'' @ content m @ [10]
      else py_str ''A:'' @ content m @ py_str ''</s>'' @ [10])"

definition example_tokenizer :: tokenizer where
  "example_tokenizer =
     \<lparr>apply_chat_template =
        (\<lambda>ms gen. concat (map example_render ms) @ (if gen then py_str ''A:'' else [])),
      encode = map int,
      eos_token = py_str ''</s>'',
      pad_token = None\<rparr>"

definition example_dataset :: "int \<Rightarrow> gsm8k_dataset" where
  "example_dataset msl =
     \<lparr>tokenizer = example_tokenizer, max_seq_len = msl,
      question = [py_str ''2+3''], answer = [py_str ''5'']\<rparr>"

text \<open>
  Two notions that the specification uses for the padded and truncated tensors: the last
  \<open>n\<close> elements of a sequence, and the number of response positions of the
  concatenated sequence (positions \<open>n_prompt\<close> and later) that lie in its trailing
  window of \<open>msl\<close> positions.
\<close>

definition last_elems :: "nat \<Rightarrow> 'a list \<Rightarrow> 'a list" where
  "last_elems n v = drop (length v - n) v"

definition response_ids_in_window :: "int \<Rightarrow> nat \<Rightarrow> nat \<Rightarrow> nat" where
  "response_ids_in_window msl n_prompt n_response =
     length (filter (\<lambda>i. int n_prompt \<le> int i \<and> int (n_prompt + n_response) - msl \<le> int i)
               [0 ..< n_prompt + n_response])"

section \<open>The interactive chat loop (\<open>scripts/inference.py\<close>)\<close>

text \<open>
  One answer of the model: the history is rendered with the chat template, up to 1024 new
  tokens are sampled (\<open>do_sample=True\<close>) and decoded. Sampling draws on a random
  state \<open>'g\<close>, which the call takes and returns.
\<close>

type_synonym 'g respond = "'g \<Rightarrow> message list \<Rightarrow> pystr \<times> 'g"

text \<open>
  The body of \<open>while True\<close> for one line read by \<open>input\<close>: \<open>None\<close> is
  \<open>break\<close>, otherwise the history and random state the next iteration starts from.
\<close>

definition repl_iteration ::
  "'g respond \<Rightarrow> 'g \<Rightarrow> message list \<Rightarrow> pystr \<Rightarrow> (message list \<times> 'g) option" where
  "repl_iteration respond g messages query =
     (if strip query = py_str ''exit'' then None
      else if strip query = py_str ''clear'' then Some ([], g)
      else let messages1 = messages @ [\<lparr>role = py_str ''user'', content = query\<rparr>];
               (response, g') = respond g messages1
           in Some (messages1 @ [\<lparr>role = py_str ''assistant'', content = response\<rparr>], g'))"

text \<open>
  The loop over the lines that standard input holds. It returns the history at
  \<open>break\<close>; when the input ends first, \<open>input\<close> raises \<open>EOFError\<close>.
\<close>

fun repl :: "'g respond \<Rightarrow> 'g \<Rightarrow> message list \<Rightarrow> pystr list \<Rightarrow> error + message list" where
  "repl respond g messages [] = Inl EOFError"
| "repl respond g messages (query # rest) =
     (case repl_iteration respond g messages query of
        None \<Rightarrow> Inr messages
      | Some (messages', g') \<Rightarrow> repl respond g' messages' rest)"

text \<open>A responder for the worked examples: it answers \<open>ok\<close> and counts its calls.\<close>

definition example_respond :: "nat respond" where
  "example_respond g messages = (py_str ''ok'', Suc g)"

section \<open>The trainer (\<open>verl/trainer/fsdp_sft_trainer.py\<close>)\<close>

subsection \<open>Configuration and device mesh\<close>

text \<open>
  The fields of the configuration document that the trainer reads. Python floats are
  carried as reals; \<open>'w\<close> is the wrap-policy document, which the trainer only hands on.
\<close>

record data_config =
  train_dataset :: pystr
  val_dataset :: pystr
  total_batch_size :: int
  micro_batch_size :: int
  data_max_seq_len :: int
  balance_dp_token :: bool

record 'w fsdp_config =
  sync_module_states :: bool
  wrap_policy :: 'w
  cpu_offload :: bool
  offload_params :: bool

record 'w model_config =
  model_path :: pystr
  enable_gradient_checkpointing :: bool
  fsdp_config :: "'w fsdp_config"

record optim_config =
  lr :: real
  betas :: "real \<times> real"
  weight_decay :: real
  warmup_steps_ratio :: real
  clip_grad :: real

record trainer_config =
  total_epochs :: int
  project_name :: pystr
  experiment_name :: pystr
  save_checkpoint_path :: pystr

record 'w config =
  data :: data_config
  model :: "'w model_config"
  optim :: optim_config
  trainer :: trainer_config

text \<open>The one-dimensional device mesh: \<open>size()\<close> and \<open>get_rank()\<close>.\<close>

record device_mesh =
  mesh_size :: nat
  get_rank :: nat

subsection \<open>Batches and collectives\<close>

text \<open>
  A batch is the stack of the examples' tensors along a leading batch dimension; it is
  kept here as the list of its rows.
\<close>

type_synonym batch = "model_inputs list"

text \<open>
  \<open>batch.split(split_size)\<close>: pieces of \<open>split_size\<close> rows, the last one shorter
  when the batch does not divide evenly.
\<close>

function chunks :: "nat \<Rightarrow> 'a list \<Rightarrow> 'a list list" where
  "chunks n xs = (if n = 0 \<or> xs = [] then [] else take n xs # chunks n (drop n xs))"
  by pat_completeness auto
termination
  by (relation "measure (\<lambda>(n, xs). length xs)") auto

definition split_batch :: "int \<Rightarrow> batch \<Rightarrow> error + batch list" where
  "split_batch split_size b =
     (if split_size \<le> 0 then Inl RuntimeError else Inr (chunks (nat split_size) b))"

text \<open>
  A collective is seen from one rank: the rank contributes its own value, and
  \<open>peers\<close> holds the values that the other ranks contribute to the same call.
  \<open>all_reduce_sum\<close> is \<open>dist.all_reduce(x)\<close>, which leaves the total over all ranks
  in \<open>x\<close>; \<open>all_reduce_avg\<close> is \<open>dist.all_reduce(x, op=dist.ReduceOp.AVG)\<close>.
\<close>

definition all_reduce_sum :: "'a::monoid_add \<Rightarrow> 'a list \<Rightarrow> 'a" where
  "all_reduce_sum x peers = x + sum_list peers"

definition all_reduce_avg :: "nat \<Rightarrow> real \<Rightarrow> real list \<Rightarrow> real" where
  "all_reduce_avg world_size x peers = (x + sum_list peers) / real world_size"

text \<open>
  What the other ranks contribute during one step of this rank: their valid-token counts
  for the micro-batch with a given number, and their losses for the final averaging.
\<close>

record peers =
  peer_valid_tokens :: "nat \<Rightarrow> int list"
  peer_losses :: "real list"

subsection \<open>The framework operations\<close>

text \<open>
  The operations of the deep-learning framework, the hub client and the data loading
  library, which the trainer calls and does not define. \<open>'p\<close> is the sharded model's
  weights, \<open>'o\<close> the rest of the training state (accumulated gradients, optimizer
  moments, learning-rate schedule) and \<open>'v\<close> the vector of logits at one position.
  \<open>forward training weights input_ids attention_mask position_ids\<close> is the
  model's output for a batch, a row of logit vectors (one per position) for each row of
  the batch, in training mode (after \<open>fsdp_model.train()\<close>) or evaluation mode (after
  \<open>fsdp_model.eval()\<close>); \<open>cross_entropy\<close> is
  \<open>nn.CrossEntropyLoss(reduction="none")\<close> at one position, carried as a real number.
  \<open>backward\<close> accumulates the gradient of one micro-batch's scaled loss.
\<close>

record ('p, 'o, 'v, 'w) framework =
  load_tokenizer :: "pystr \<Rightarrow> tokenizer"
  load_dataset :: "pystr \<Rightarrow> pystr list \<times> pystr list"
  make_dataloader :: "gsm8k_dataset \<Rightarrow> int \<Rightarrow> device_mesh \<Rightarrow> bool \<Rightarrow> nat \<Rightarrow> batch list"
  build_model_optimizer :: "'w config \<Rightarrow> device_mesh \<Rightarrow> nat \<Rightarrow> 'p \<times> 'o"
  forward :: "bool \<Rightarrow> 'p \<Rightarrow> int list list \<Rightarrow> int list list \<Rightarrow> int list list \<Rightarrow> 'v list list"
  cross_entropy :: "'v \<Rightarrow> int \<Rightarrow> real"
  zero_grad :: "'o \<Rightarrow> 'o"
  backward :: "'p \<Rightarrow> batch \<Rightarrow> int list \<Rightarrow> nat \<Rightarrow> 'o \<Rightarrow> 'o"
  clip_grad_norm :: "real \<Rightarrow> 'o \<Rightarrow> 'o"
  optimizer_step :: "'p \<Rightarrow> 'o \<Rightarrow> 'p \<times> 'o"
  lr_scheduler_step :: "'o \<Rightarrow> 'o"
  get_last_lr :: "'o \<Rightarrow> real"
  to_bfloat16 :: "'p \<Rightarrow> 'p"

subsection \<open>The trainer object\<close>

text \<open>
  The attributes of \<open>FSDPSFTTrainer\<close>. A data loader is the list of batches it
  yields in a given epoch (\<open>set_epoch\<close> reshuffles the training sampler).
\<close>

record ('p, 'o, 'w) fsdp_sft_trainer =
  config :: "'w config"
  device_mesh :: device_mesh
  trainer_tokenizer :: tokenizer
  train_dataloader :: "nat \<Rightarrow> batch list"
  val_dataloader :: "nat \<Rightarrow> batch list"
  fsdp_model :: 'p
  optimizer :: 'o

subsection \<open>Initialization\<close>

text \<open>\<open>build_tokenizer\<close> of \<open>verl/utils/tokenizer.py\<close>.\<close>

definition build_tokenizer :: "('p, 'o, 'v, 'w) framework \<Rightarrow> pystr \<Rightarrow> tokenizer" where
  "build_tokenizer fw tokenizer_path =
     (let tokenizer = load_tokenizer fw tokenizer_path
      in if pad_token tokenizer = None
         then tokenizer\<lparr>pad_token := Some (eos_token tokenizer)\<rparr>
         else tokenizer)"

text \<open>
  \<open>_normalize_config_bsz\<close>. The two assertions come first; Python's \<open>%\<close> and
  \<open>//\<close> on integers are \<open>mod\<close> and \<open>div\<close> (both round towards minus infinity),
  and \<open>%\<close> raises for a zero divisor. The method overwrites the two batch sizes in
  \<open>self.config\<close>; the configuration it leaves is the result.
\<close>

definition normalize_config_bsz :: "'w config \<Rightarrow> device_mesh \<Rightarrow> error + 'w config" where
  "normalize_config_bsz cfg mesh =
     (let dp_size = int (mesh_size mesh) in
      if dp_size = 0 then Inl ZeroDivisionError
      else if total_batch_size (data cfg) mod dp_size \<noteq> 0 then Inl AssertionError
      else if micro_batch_size (data cfg) mod dp_size \<noteq> 0 then Inl AssertionError
      else Inr (cfg\<lparr>data := (data cfg)
                  \<lparr>total_batch_size := total_batch_size (data cfg) div dp_size,
                   micro_batch_size := micro_batch_size (data cfg) div dp_size\<rparr>\<rparr>))"

text \<open>\<open>GSM8KDataset.__init__\<close>.\<close>

definition new_dataset ::
  "('p, 'o, 'v, 'w) framework \<Rightarrow> tokenizer \<Rightarrow> int \<Rightarrow> pystr \<Rightarrow> gsm8k_dataset" where
  "new_dataset fw tok msl split =
     (let (questions, answers) = load_dataset fw split
      in \<lparr>tokenizer = tok, max_seq_len = msl, question = questions, answer = answers\<rparr>)"

text \<open>
  \<open>_build_dataloader\<close>: the training loader (shuffled, batches of
  \<open>total_batch_size\<close>) and the validation loader (not shuffled, batches of
  \<open>micro_batch_size\<close>).
\<close>

definition build_dataloader ::
  "('p, 'o, 'v, 'w) framework \<Rightarrow> tokenizer \<Rightarrow> 'w config \<Rightarrow> device_mesh
     \<Rightarrow> error + (nat \<Rightarrow> batch list) \<times> (nat \<Rightarrow> batch list)" where
  "build_dataloader fw tok cfg mesh =
     (if train_dataset (data cfg) \<noteq> py_str ''gsm8k'' then Inl NotImplementedError
      else if val_dataset (data cfg) \<noteq> py_str ''gsm8k'' then Inl NotImplementedError
      else
        let train_ds = new_dataset fw tok (data_max_seq_len (data cfg)) (py_str ''train'');
            val_ds = new_dataset fw tok (data_max_seq_len (data cfg)) (py_str ''test'')
        in Inr (make_dataloader fw train_ds (total_batch_size (data cfg)) mesh True,
                make_dataloader fw val_ds (micro_batch_size (data cfg)) mesh False))"

text \<open>
  \<open>FSDPSFTTrainer.__init__\<close>. \<open>_build_model_optimizer\<close> is the framework's; it
  gets the number of training batches of an epoch for the learning-rate schedule.
\<close>

definition init ::
  "('p, 'o, 'v, 'w) framework \<Rightarrow> 'w config \<Rightarrow> device_mesh
     \<Rightarrow> error + ('p, 'o, 'w) fsdp_sft_trainer" where
  "init fw cfg mesh =
     (let tok = build_tokenizer fw (model_path (model cfg)) in
      case normalize_config_bsz cfg mesh of
        Inl e \<Rightarrow> Inl e
      | Inr cfg1 \<Rightarrow>
          (case build_dataloader fw tok cfg1 mesh of
             Inl e \<Rightarrow> Inl e
           | Inr (train_dl, val_dl) \<Rightarrow>
               let (weights, opt) = build_model_optimizer fw cfg1 mesh (length (train_dl 0))
               in Inr \<lparr>config = cfg1, device_mesh = mesh, trainer_tokenizer = tok,
                        train_dataloader = train_dl, val_dataloader = val_dl,
                        fsdp_model = weights, optimizer = opt\<rparr>))"

subsection \<open>The loss\<close>

text \<open>
  Lines 181 to 200 of \<open>_compute_loss\<close>. \<open>[:, :-1]\<close> drops the last column
  (\<open>butlast\<close> of every row), \<open>[:, 1:]\<close> the first (\<open>tl\<close>), and \<open>reshape(-1)\<close> and
  \<open>view(-1)\<close> lay the rows one after the other.
\<close>

definition shift_loss_mask :: "batch \<Rightarrow> int list" where
  "shift_loss_mask b = concat (map (\<lambda>row. butlast (loss_mask row)) b)"

definition shift_labels :: "batch \<Rightarrow> int list" where
  "shift_labels b = concat (map (\<lambda>row. tl (input_ids row)) b)"

definition shift_logits :: "'v list list \<Rightarrow> 'v list" where
  "shift_logits logits = concat (map butlast logits)"

definition masked_losses :: "('v \<Rightarrow> int \<Rightarrow> real) \<Rightarrow> 'v list list \<Rightarrow> batch \<Rightarrow> real list" where
  "masked_losses ce logits b =
     (let loss = map2 ce (shift_logits logits) (shift_labels b)
      in map2 (\<lambda>l m. l * real_of_int m) loss (shift_loss_mask b))"

text \<open>
  \<open>_compute_loss\<close> in the given mode of the model. \<open>dist.get_world_size()\<close> is the
  size of the device mesh, which \<open>main\<close> builds over all ranks.
\<close>

definition compute_loss ::
  "('p, 'o, 'v, 'w) framework \<Rightarrow> ('p, 'o, 'w) fsdp_sft_trainer \<Rightarrow> bool \<Rightarrow> int list \<Rightarrow> batch
     \<Rightarrow> real" where
  "compute_loss fw self mode peer_valid b =
     (let logits = forward fw mode (fsdp_model self)
                     (map input_ids b) (map attention_mask b) (map position_ids b);
          loss = masked_losses (cross_entropy fw) logits b;
          valid_tokens = sum_list (shift_loss_mask b);
          valid_tokens =
            (if balance_dp_token (data (config self))
             then real_of_int (all_reduce_sum valid_tokens peer_valid)
                    / real (mesh_size (device_mesh self))
             else real_of_int valid_tokens)
      in sum_list loss / valid_tokens)"

subsection \<open>The masked loss on floating-point values\<close>

text \<open>
  \<open>masked_losses\<close> carries the per-token losses as real numbers, which covers the
  losses that are finite. The tensor that \<open>nn.CrossEntropyLoss\<close> returns is a
  floating-point tensor, and an entry of it can be an infinity (a label of probability
  zero, or logits whose spread overflows) or NaN. A floating-point value is kept here
  without its rounding: a finite number, plus or minus infinity, or NaN, with the sums
  and products that IEEE 754 gives the non-finite values; in particular an infinity
  times zero is NaN.
\<close>

datatype float_value = Fin real | PInf | NInf | NaN

fun float_mult :: "float_value \<Rightarrow> float_value \<Rightarrow> float_value" where
  "float_mult NaN y = NaN"
| "float_mult x NaN = NaN"
| "float_mult (Fin a) (Fin b) = Fin (a * b)"
| "float_mult (Fin a) PInf = (if a = 0 then NaN else if 0 < a then PInf else NInf)"
| "float_mult (Fin a) NInf = (if a = 0 then NaN else if 0 < a then NInf else PInf)"
| "float_mult PInf (Fin b) = (if b = 0 then NaN else if 0 < b then PInf else NInf)"
| "float_mult NInf (Fin b) = (if b = 0 then NaN else if 0 < b then NInf else PInf)"
| "float_mult PInf PInf = PInf"
| "float_mult PInf NInf = NInf"
| "float_mult NInf PInf = NInf"
| "float_mult NInf NInf = PInf"

fun float_add :: "float_value \<Rightarrow> float_value \<Rightarrow> float_value" where
  "float_add NaN y = NaN"
| "float_add x NaN = NaN"
| "float_add (Fin a) (Fin b) = Fin (a + b)"
| "float_add (Fin a) y = y"
| "float_add x (Fin b) = x"
| "float_add PInf PInf = PInf"
| "float_add NInf NInf = NInf"
| "float_add PInf NInf = NaN"
| "float_add NInf PInf = NaN"

fun is_finite :: "float_value \<Rightarrow> bool" where
  "is_finite (Fin a) = True"
| "is_finite x = False"

text \<open>\<open>torch.sum\<close> of a one-dimensional tensor.\<close>

definition float_sum :: "float_value list \<Rightarrow> float_value" where
  "float_sum xs = foldl float_add (Fin 0) xs"

text \<open>
  Lines 199 and 200 on floating-point values: the per-token losses, and their products
  with the entries of the integer mask, which the multiplication converts to floats.
\<close>

definition float_losses :: "('v \<Rightarrow> int \<Rightarrow> float_value) \<Rightarrow> 'v list list \<Rightarrow> batch \<Rightarrow> float_value list" where
  "float_losses ce logits b = map2 ce (shift_logits logits) (shift_labels b)"

definition float_masked_losses ::
  "('v \<Rightarrow> int \<Rightarrow> float_value) \<Rightarrow> 'v list list \<Rightarrow> batch \<Rightarrow> float_value list" where
  "float_masked_losses ce logits b =
     (let loss = float_losses ce logits b
      in map2 (\<lambda>l m. float_mult l (Fin (real_of_int m))) loss (shift_loss_mask b))"

subsection \<open>Training step, validation step, checkpoint\<close>

record metrics =
  train_loss :: real
  train_lr :: real

text \<open>
  The loop over the micro-batches of \<open>training_step\<close>; \<open>j\<close> numbers the
  micro-batch, and the pair is \<open>step_loss\<close> and the training state.
\<close>

fun micro_batch_loop ::
  "('p, 'o, 'v, 'w) framework \<Rightarrow> ('p, 'o, 'w) fsdp_sft_trainer \<Rightarrow> peers \<Rightarrow> nat \<Rightarrow> nat
     \<Rightarrow> batch list \<Rightarrow> real \<times> 'o \<Rightarrow> real \<times> 'o" where
  "micro_batch_loop fw self ps n_micro_batches j [] acc = acc"
| "micro_batch_loop fw self ps n_micro_batches j (micro_batch # rest) (step_loss, opt) =
     (let loss = compute_loss fw self True (peer_valid_tokens ps j) micro_batch
                   / real n_micro_batches;
          opt1 = backward fw (fsdp_model self) micro_batch (peer_valid_tokens ps j)
                   n_micro_batches opt
      in micro_batch_loop fw self ps n_micro_batches (Suc j) rest (step_loss + loss, opt1))"

definition training_step ::
  "('p, 'o, 'v, 'w) framework \<Rightarrow> ('p, 'o, 'w) fsdp_sft_trainer \<Rightarrow> peers \<Rightarrow> batch
     \<Rightarrow> error + metrics \<times> ('p, 'o, 'w) fsdp_sft_trainer" where
  "training_step fw self ps b =
     (let opt0 = zero_grad fw (optimizer self) in
      case split_batch (micro_batch_size (data (config self))) b of
        Inl e \<Rightarrow> Inl e
      | Inr micro_batches \<Rightarrow>
          let n_micro_batches = length micro_batches;
              (step_loss, opt1) =
                micro_batch_loop fw self ps n_micro_batches 0 micro_batches (0, opt0);
              opt2 = clip_grad_norm fw (clip_grad (optim (config self))) opt1;
              (weights, opt3) = optimizer_step fw (fsdp_model self) opt2;
              opt4 = lr_scheduler_step fw opt3;
              step_loss1 = all_reduce_avg (mesh_size (device_mesh self)) step_loss (peer_losses ps)
          in Inr (\<lparr>train_loss = step_loss1, train_lr = get_last_lr fw opt4\<rparr>,
                  self\<lparr>fsdp_model := weights, optimizer := opt4\<rparr>))"

definition validation_step ::
  "('p, 'o, 'v, 'w) framework \<Rightarrow> ('p, 'o, 'w) fsdp_sft_trainer \<Rightarrow> peers \<Rightarrow> batch
     \<Rightarrow> real \<times> ('p, 'o, 'w) fsdp_sft_trainer" where
  "validation_step fw self ps b =
     (let loss = compute_loss fw self False (peer_valid_tokens ps 0) b
      in (all_reduce_avg (mesh_size (device_mesh self)) loss (peer_losses ps), self))"

text \<open>
  \<open>save_checkpoint\<close>: rank 0 writes the weights, cast to bfloat16, and the tokenizer
  under \<open>save_checkpoint_path\<close> for the given step; the other ranks write nothing.
\<close>

record 'p checkpoint =
  ckpt_dir :: pystr
  ckpt_step :: nat
  ckpt_weights :: 'p
  ckpt_tokenizer :: tokenizer

definition save_checkpoint ::
  "('p, 'o, 'v, 'w) framework \<Rightarrow> ('p, 'o, 'w) fsdp_sft_trainer \<Rightarrow> nat
     \<Rightarrow> 'p checkpoint option \<times> ('p, 'o, 'w) fsdp_sft_trainer" where
  "save_checkpoint fw self step =
     (let state_dict = to_bfloat16 fw (fsdp_model self) in
      (if get_rank (device_mesh self) = 0
       then Some \<lparr>ckpt_dir = save_checkpoint_path (trainer (config self)), ckpt_step = step,
                  ckpt_weights = state_dict, ckpt_tokenizer = trainer_tokenizer self\<rparr>
       else None,
       self))"

subsection \<open>The epoch loop\<close>

text \<open>
  What a run leaves outside the trainer object: the metrics that rank 0 logs and the
  checkpoints it writes, in order.
\<close>

datatype 'p event =
    TrainMetric nat metrics
  | ValLoss nat real
  | Saved "'p checkpoint"

text \<open>
  The other ranks' contributions over a whole run: for the training step with a given
  global step number, and for the validation step on a given batch of a given epoch.
\<close>

record peer_schedule =
  train_peers :: "nat \<Rightarrow> peers"
  val_peers :: "nat \<Rightarrow> nat \<Rightarrow> peers"

text \<open>The loop over the training batches of one epoch.\<close>

fun train_loop ::
  "('p, 'o, 'v, 'w) framework \<Rightarrow> peer_schedule \<Rightarrow> batch list
     \<Rightarrow> ('p, 'o, 'w) fsdp_sft_trainer \<times> nat \<times> 'p event list
     \<Rightarrow> error + ('p, 'o, 'w) fsdp_sft_trainer \<times> nat \<times> 'p event list" where
  "train_loop fw sched [] st = Inr st"
| "train_loop fw sched (b # rest) (self, global_step, events) =
     (case training_step fw self (train_peers sched global_step) b of
        Inl e \<Rightarrow> Inl e
      | Inr (metric, self1) \<Rightarrow>
          train_loop fw sched rest
            (self1, Suc global_step,
             events @ (if get_rank (device_mesh self1) = 0
                       then [TrainMetric global_step metric] else [])))"

text \<open>The loop over the validation batches of one epoch; \<open>k\<close> numbers the batch.\<close>

fun val_loop ::
  "('p, 'o, 'v, 'w) framework \<Rightarrow> (nat \<Rightarrow> peers) \<Rightarrow> nat \<Rightarrow> batch list
     \<Rightarrow> ('p, 'o, 'w) fsdp_sft_trainer \<times> real list
     \<Rightarrow> ('p, 'o, 'w) fsdp_sft_trainer \<times> real list" where
  "val_loop fw vp k [] st = st"
| "val_loop fw vp k (b # rest) (self, val_losses) =
     (let (val_loss, self1) = validation_step fw self (vp k) b
      in val_loop fw vp (Suc k) rest (self1, val_losses @ [val_loss]))"

text \<open>
  The loop over the epochs. On rank 0 the validation losses are stacked and averaged
  (\<open>torch.stack\<close> raises on an empty list); then every rank saves a checkpoint.
\<close>

fun epoch_loop ::
  "('p, 'o, 'v, 'w) framework \<Rightarrow> peer_schedule \<Rightarrow> nat list
     \<Rightarrow> ('p, 'o, 'w) fsdp_sft_trainer \<times> nat \<times> 'p event list
     \<Rightarrow> error + ('p, 'o, 'w) fsdp_sft_trainer \<times> nat \<times> 'p event list" where
  "epoch_loop fw sched [] st = Inr st"
| "epoch_loop fw sched (epoch # rest) (self, global_step, events) =
     (case train_loop fw sched (train_dataloader self epoch) (self, global_step, events) of
        Inl e \<Rightarrow> Inl e
      | Inr (self1, global_step1, events1) \<Rightarrow>
          let (self2, val_losses) =
                val_loop fw (val_peers sched epoch) 0 (val_dataloader self1 epoch) (self1, [])
          in if get_rank (device_mesh self2) = 0 \<and> val_losses = [] then Inl RuntimeError
             else
               let events2 =
                     events1 @ (if get_rank (device_mesh self2) = 0
                                then [ValLoss global_step1
                                        (sum_list val_losses / real (length val_losses))]
                                else []);
                   (ckpt, self3) = save_checkpoint fw self2 global_step1;
                   events3 = events2 @ (case ckpt of None \<Rightarrow> [] | Some c \<Rightarrow> [Saved c])
               in epoch_loop fw sched rest (self3, global_step1, events3))"

text \<open>\<open>fit\<close>: \<open>range(total_epochs)\<close> is empty for a total that is not positive.\<close>

definition fit ::
  "('p, 'o, 'v, 'w) framework \<Rightarrow> peer_schedule \<Rightarrow> ('p, 'o, 'w) fsdp_sft_trainer
     \<Rightarrow> error + ('p, 'o, 'w) fsdp_sft_trainer \<times> nat \<times> 'p event list" where
  "fit fw sched self =
     epoch_loop fw sched [0 ..< nat (total_epochs (trainer (config self)))] (self, 0, [])"

text \<open>
  \<open>main\<close> on one rank of a world of \<open>world_size\<close> processes: the mesh, the
  trainer, the run. An exception of \<open>__init__\<close> ends the process before \<open>fit\<close>.
\<close>

definition main ::
  "('p, 'o, 'v, 'w) framework \<Rightarrow> peer_schedule \<Rightarrow> 'w config \<Rightarrow> nat \<Rightarrow> nat
     \<Rightarrow> error + ('p, 'o, 'w) fsdp_sft_trainer \<times> nat \<times> 'p event list" where
  "main fw sched cfg world_size rank =
     (let mesh = \<lparr>mesh_size = world_size, get_rank = rank\<rparr> in
      case init fw cfg mesh of
        Inl e \<Rightarrow> Inl e
      | Inr self \<Rightarrow> fit fw sched self)"

subsection \<open>The loss of a training step in the specification's words\<close>

text \<open>
  The valid-token count of a micro-batch: the sum over all ranks divided by the world
  size when token-count balancing is enabled, the local sum otherwise. The masked-mean
  loss of a micro-batch: the sum of the per-token cross-entropy losses weighted by the
  loss mask, divided by the valid-token count.
\<close>

definition valid_token_count :: "bool \<Rightarrow> nat \<Rightarrow> int \<Rightarrow> int list \<Rightarrow> real" where
  "valid_token_count balance world_size local_count peer_counts =
     (if balance then real_of_int (local_count + sum_list peer_counts) / real world_size
      else real_of_int local_count)"

definition masked_mean_loss ::
  "('p, 'o, 'v, 'w) framework \<Rightarrow> ('p, 'o, 'w) fsdp_sft_trainer \<Rightarrow> int list \<Rightarrow> batch \<Rightarrow> real" where
  "masked_mean_loss fw self peer_counts mb =
     sum_list (masked_losses (cross_entropy fw)
                 (forward fw True (fsdp_model self)
                    (map input_ids mb) (map attention_mask mb) (map position_ids mb)) mb)
     / valid_token_count (balance_dp_token (data (config self))) (mesh_size (device_mesh self))
         (sum_list (shift_loss_mask mb)) peer_counts"

subsection \<open>A small configuration, framework and trainer for the worked examples\<close>

definition example_config :: "unit config" where
  "example_config =
     \<lparr>data = \<lparr>train_dataset = py_str ''gsm8k'', val_dataset = py_str ''gsm8k'',
              total_batch_size = 8, micro_batch_size = 4, data_max_seq_len = 16,
              balance_dp_token = True\<rparr>,
      model = \<lparr>model_path = py_str ''m'', enable_gradient_checkpointing = False,
               fsdp_config = \<lparr>sync_module_states = False, wrap_policy = (),
                              cpu_offload = False, offload_params = False\<rparr>\<rparr>,
      optim = \<lparr>lr = 1, betas = (0, 0), weight_decay = 0, warmup_steps_ratio = 0,
               clip_grad = 1\<rparr>,
      trainer = \<lparr>total_epochs = 1, project_name = py_str ''p'',
                 experiment_name = py_str ''e'', save_checkpoint_path = py_str ''c''\<rparr>\<rparr>"

text \<open>A row of three positions with a given loss mask.\<close>

definition example_row :: "int list \<Rightarrow> model_inputs" where
  "example_row msk =
     \<lparr>input_ids = [5, 6, 7], attention_mask = [1, 1, 1], position_ids = [0, 1, 2],
      loss_mask = msk\<rparr>"

definition example_batch :: batch where
  "example_batch =
     [example_row [0, 1, 1], example_row [1, 1, 0], example_row [0, 1, 0], example_row [1, 1, 1]]"

text \<open>
  The example framework has no weights; its logit at a position is the token id there,
  its cross-entropy adds the label to the logit, its training state counts the scheduler
  steps, and each of its data loaders yields one batch per epoch.
\<close>

definition example_cross_entropy :: "real \<Rightarrow> int \<Rightarrow> real" where
  "example_cross_entropy v y = v + real_of_int y"

definition example_framework :: "(unit, nat, real, unit) framework" where
  "example_framework =
     \<lparr>load_tokenizer = (\<lambda>_. example_tokenizer),
      load_dataset = (\<lambda>_. ([py_str ''2+3''], [py_str ''5''])),
      make_dataloader =
        (\<lambda>ds batch_size mesh shuffle epoch. [take (nat batch_size) example_batch]),
      build_model_optimizer = (\<lambda>cfg mesh steps. ((), 0)),
      forward = (\<lambda>mode w ids am pos. map (map real_of_int) ids),
      cross_entropy = example_cross_entropy,
      zero_grad = (\<lambda>opt. opt),
      backward = (\<lambda>w mb pv n opt. opt),
      clip_grad_norm = (\<lambda>c opt. opt),
      optimizer_step = (\<lambda>w opt. (w, opt)),
      lr_scheduler_step = Suc,
      get_last_lr = (\<lambda>opt. 1 / real (Suc opt)),
      to_bfloat16 = (\<lambda>w. w)\<rparr>"

text \<open>
  A model for the examples on floating-point values: its output at a position is the
  logarithm of the probability it gives to the next token, whatever that token is, and the
  cross-entropy is the negated logarithm, infinite for the probability zero.
\<close>

fun example_nll :: "float_value \<Rightarrow> int \<Rightarrow> float_value" where
  "example_nll (Fin a) y = Fin (- a)"
| "example_nll NInf y = PInf"
| "example_nll PInf y = NInf"
| "example_nll NaN y = NaN"

text \<open>The other rank of a world of two: 3 valid tokens in every micro-batch, loss 1.\<close>

definition example_peers :: peers where
  "example_peers = \<lparr>peer_valid_tokens = (\<lambda>j. [3]), peer_losses = [1]\<rparr>"

definition example_schedule :: peer_schedule where
  "example_schedule =
     \<lparr>train_peers = (\<lambda>step. example_peers), val_peers = (\<lambda>epoch k. example_peers)\<rparr>"

text \<open>The mesh of rank 0 of two, and a trainer on it after initialization.\<close>

definition example_mesh :: device_mesh where
  "example_mesh = \<lparr>mesh_size = 2, get_rank = 0\<rparr>"

definition example_trainer :: "(unit, nat, unit) fsdp_sft_trainer" where
  "example_trainer =
     \<lparr>config = example_config\<lparr>data := (data example_config)
                 \<lparr>total_batch_size := 4, micro_batch_size := 2\<rparr>\<rparr>,
      device_mesh = example_mesh,
      trainer_tokenizer = example_tokenizer,
      train_dataloader = (\<lambda>epoch. [example_batch]),
      val_dataloader = (\<lambda>epoch. [take 2 example_batch]),
      fsdp_model = (),
      optimizer = 0\<rparr>"

section \<open>Properties of the dataset adapter\<close>

lemma slice_from_neg:
  "0 < m \<Longrightarrow> slice_from (- m) v = last_elems (nat m) v"
  by (auto simp: slice_from_def last_elems_def Let_def max_def nat_diff_distrib' intro: arg_cong2[where f=drop])

lemma slice_from_zero: "slice_from 0 v = v"
  by (simp add: slice_from_def)

lemma length_last_elems: "length (last_elems n v) = min n (length v)"
  by (auto simp: last_elems_def)

lemma py_index_valid:
  "- int (length xs) \<le> i \<Longrightarrow> i < int (length xs) \<Longrightarrow> \<exists>x. py_index xs i = Inr x"
  by (auto simp: py_index_def Let_def)

lemma untruncated_lengths:
  "length (attention_mask (untruncated tok q a)) = length (input_ids (untruncated tok q a))"
  "length (position_ids (untruncated tok q a)) = length (input_ids (untruncated tok q a))"
  "length (loss_mask (untruncated tok q a)) = length (input_ids (untruncated tok q a))"
  "length (input_ids (untruncated tok q a)) = length (prompt_ids tok q a) + length (response_ids tok q a)"
  by (simp_all add: untruncated_def build_model_inputs_def Let_def)

lemma getitem_Inr:
  "py_index (question self) index = Inr q \<Longrightarrow> py_index (answer self) index = Inr a \<Longrightarrow>
   getitem self index = Inr (pad_or_truncate (max_seq_len self) (untruncated (tokenizer self) q a))"
  by (simp add: getitem_def)

lemma pad_or_truncate_lengths:
  assumes "0 < msl"
    and "length (attention_mask m) = length (input_ids m)"
    and "length (position_ids m) = length (input_ids m)"
    and "length (loss_mask m) = length (input_ids m)"
  shows "int (length (input_ids (pad_or_truncate msl m))) = msl"
    and "int (length (attention_mask (pad_or_truncate msl m))) = msl"
    and "int (length (position_ids (pad_or_truncate msl m))) = msl"
    and "int (length (loss_mask (pad_or_truncate msl m))) = msl"
  using assms
  by (auto simp: pad_or_truncate_def map_items_def pad_def Let_def slice_from_neg length_last_elems)

lemma count_from: "length (filter (\<lambda>i. a \<le> i) [0 ..< n]) = n - a"
  by (induction n) (auto simp: Suc_diff_le)

lemma response_ids_in_window_eq:
  assumes "0 \<le> msl"
  shows "response_ids_in_window msl p r = min r (nat msl)"
proof -
  have "(\<lambda>i. int p \<le> int i \<and> int (p + r) - msl \<le> int i) = (\<lambda>i. max p (p + r - nat msl) \<le> i)"
    using assms by (intro ext) auto
  then have "response_ids_in_window msl p r = p + r - max p (p + r - nat msl)"
    unfolding response_ids_in_window_def by (simp only: count_from)
  moreover have "p + r - max p (p + r - nat msl) = min r (nat msl)"
    by arith
  ultimately show ?thesis
    by (rule trans)
qed

lemma sum_list_replicate0: "sum_list (replicate n (0::int)) = 0"
  by (induction n) auto
lemma sum_list_replicate1: "sum_list (replicate n (1::int)) = int n"
  by (induction n) auto

lemma sum_last_elems_mask:
  "sum_list (last_elems k (replicate p (0::int) @ replicate r 1)) = int (min r k)"
  by (auto simp: last_elems_def sum_list_replicate0 sum_list_replicate1)

lemma replicate_numeral: "replicate (numeral k) x = x # replicate (pred_numeral k) x"
  by (simp add: numeral_eq_Suc)

lemmas example_defs =
  example_dataset_def example_tokenizer_def example_render_def py_str_def messages_of_def

lemmas getitem_defs =
  getitem_def py_index_def pad_or_truncate_def untruncated_def build_model_inputs_def
  prompt_ids_def response_ids_def prompt_str_def response_str_def response_suffix_def
  slice_from_def endswith_def rstrip_def py_isspace_def map_items_def pad_def

text \<open>
  Claim C1, as amended. For a positive \<open>max_seq_len\<close> and every index of the split,
  \<open>__getitem__\<close> returns the four tensors \<open>input_ids\<close>, \<open>attention_mask\<close>,
  \<open>position_ids\<close> and \<open>loss_mask\<close>, and each has exactly \<open>max_seq_len\<close>
  elements, whether the example was padded or truncated.
\<close>

theorem getitem_lengths:
  assumes "0 < max_seq_len self" and "valid_index self index"
  shows "\<exists>r. getitem self index = Inr r
           \<and> int (length (input_ids r)) = max_seq_len self
           \<and> int (length (attention_mask r)) = max_seq_len self
           \<and> int (length (position_ids r)) = max_seq_len self
           \<and> int (length (loss_mask r)) = max_seq_len self"
proof -
  from assms(2) obtain q where q: "py_index (question self) index = Inr q"
    using py_index_valid [of "question self" index] by (auto simp: valid_index_def len_def)
  from assms(2) obtain a where a: "py_index (answer self) index = Inr a"
    using py_index_valid [of "answer self" index] by (auto simp: valid_index_def len_def)
  let ?u = "untruncated (tokenizer self) q a"
  have "getitem self index = Inr (pad_or_truncate (max_seq_len self) ?u)"
    using q a by (rule getitem_Inr)
  then show ?thesis
    using pad_or_truncate_lengths [OF assms(1) untruncated_lengths(1-3), of "tokenizer self" q a]
    by simp
qed

text \<open>The example, padded to 16 positions.\<close>

theorem getitem_lengths_witness:
  "0 < max_seq_len (example_dataset 16) \<and> valid_index (example_dataset 16) 0
   \<and> (\<exists>r. getitem (example_dataset 16) 0 = Inr r
           \<and> int (length (input_ids r)) = 16 \<and> int (length (attention_mask r)) = 16
           \<and> int (length (position_ids r)) = 16 \<and> int (length (loss_mask r)) = 16)"
  using getitem_lengths [of "example_dataset 16" 0]
  by (simp add: example_dataset_def valid_index_def len_def)

text \<open>
  Claim C1 as stated fails for \<open>max_seq_len = 0\<close>: the example has 14 tokens, the
  test \<open>14 < 0\<close> fails, and the slice \<open>v[-0:]\<close> keeps all 14 elements.
\<close>

theorem getitem_lengths_counterexample:
  "valid_index (example_dataset 0) 0
   \<and> getitem (example_dataset 0) 0 =
       Inr \<lparr>input_ids = [85, 58, 50, 43, 51, 10, 65, 58, 53, 60, 47, 115, 62, 10],
            attention_mask = [1, 1, 1, 1, 1, 1, 1, 1, 1, 1, 1, 1, 1, 1],
            position_ids = [0, 1, 2, 3, 4, 5, 6, 7, 8, 9, 10, 11, 12, 13],
            loss_mask = [0, 0, 0, 0, 0, 0, 0, 0, 1, 1, 1, 1, 1, 1]\<rparr>
   \<and> int (length (input_ids (projr (getitem (example_dataset 0) 0)))) \<noteq> max_seq_len (example_dataset 0)"
  by (simp add: valid_index_def len_def example_defs getitem_defs upt_rec)

lemma loss_mask_untruncated:
  "loss_mask (untruncated tok q a) =
     replicate (length (prompt_ids tok q a)) 0 @ replicate (length (response_ids tok q a)) 1"
  by (simp add: untruncated_def build_model_inputs_def Let_def)

lemma pad_or_truncate_pad:
  "int (length (input_ids m)) < msl \<Longrightarrow>
   pad_or_truncate msl m =
     map_items (\<lambda>v. v @ replicate (nat (msl - int (length (input_ids m)))) 0) m"
  by (simp add: pad_or_truncate_def pad_def Let_def)

lemma pad_or_truncate_truncate:
  "msl \<le> int (length (input_ids m)) \<Longrightarrow> 0 < msl \<Longrightarrow>
   pad_or_truncate msl m = map_items (last_elems (nat msl)) m"
  by (simp add: pad_or_truncate_def map_items_def slice_from_neg)

lemma pad_or_truncate_slice:
  assumes "msl \<le> int (length (input_ids m))"
    and "length (attention_mask m) = length (input_ids m)"
    and "length (position_ids m) = length (input_ids m)"
    and "length (loss_mask m) = length (input_ids m)"
  shows "pad_or_truncate msl m =
           map_items (drop (nat (if - msl < 0 then max 0 (- msl + int (length (input_ids m)))
                                 else min (- msl) (int (length (input_ids m)))))) m"
  using assms by (simp add: pad_or_truncate_def map_items_def slice_from_def Let_def)

lemma pad_or_truncate_whole:
  "msl = int (length (input_ids m)) \<Longrightarrow> length (loss_mask m) = length (input_ids m) \<Longrightarrow>
   loss_mask (pad_or_truncate msl m) = loss_mask m"
  by (auto simp: pad_or_truncate_def map_items_def slice_from_def Let_def)

text \<open>
  Claim C2, as amended. The returned \<open>loss_mask\<close> sums to the number of response
  token ids when the concatenated length is at most \<open>max_seq_len\<close>; when it is
  longer and \<open>max_seq_len\<close> is positive, the sum is the number of response positions
  inside the trailing window of \<open>max_seq_len\<close> positions; and a padded example has
  zeros over the prompt, ones over the response and zeros over the padding.
\<close>

theorem loss_mask_sum:
  assumes q: "py_index (question self) index = Inr q"
    and a: "py_index (answer self) index = Inr a"
  shows "\<exists>res. getitem self index = Inr res
     \<and> (int (length (prompt_ids (tokenizer self) q a) + length (response_ids (tokenizer self) q a))
            \<le> max_seq_len self
          \<longrightarrow> sum_list (loss_mask res) = int (length (response_ids (tokenizer self) q a)))
     \<and> (max_seq_len self
            < int (length (prompt_ids (tokenizer self) q a) + length (response_ids (tokenizer self) q a))
          \<and> 0 < max_seq_len self
          \<longrightarrow> sum_list (loss_mask res) =
                int (response_ids_in_window (max_seq_len self)
                       (length (prompt_ids (tokenizer self) q a))
                       (length (response_ids (tokenizer self) q a))))
     \<and> (int (length (prompt_ids (tokenizer self) q a) + length (response_ids (tokenizer self) q a))
            < max_seq_len self
          \<longrightarrow> loss_mask res =
                replicate (length (prompt_ids (tokenizer self) q a)) 0
                @ replicate (length (response_ids (tokenizer self) q a)) 1
                @ replicate (nat (max_seq_len self)
                     - (length (prompt_ids (tokenizer self) q a)
                        + length (response_ids (tokenizer self) q a))) 0)"
proof -
  let ?tok = "tokenizer self" and ?msl = "max_seq_len self"
  let ?u = "untruncated ?tok q a"
  let ?p = "length (prompt_ids ?tok q a)" and ?r = "length (response_ids ?tok q a)"
  let ?res = "pad_or_truncate ?msl ?u"
  have n: "length (input_ids ?u) = ?p + ?r"
    by (rule untruncated_lengths(4))
  have padded: "loss_mask ?res = replicate ?p 0 @ replicate ?r 1 @ replicate (nat ?msl - (?p + ?r)) 0"
    if "int (?p + ?r) < ?msl"
  proof -
    have "nat (?msl - int (?p + ?r)) = nat ?msl - (?p + ?r)"
      by (simp add: nat_diff_distrib')
    with that show ?thesis
      using pad_or_truncate_pad [of ?u ?msl]
      by (simp add: n map_items_def loss_mask_untruncated)
  qed
  have fits: "sum_list (loss_mask ?res) = int ?r" if "int (?p + ?r) \<le> ?msl"
  proof (cases "int (?p + ?r) < ?msl")
    case True
    then show ?thesis
      by (simp add: padded sum_list_replicate0 sum_list_replicate1)
  next
    case False
    with that have "?msl = int (length (input_ids ?u))"
      by (simp add: n)
    then have "loss_mask ?res = loss_mask ?u"
      by (rule pad_or_truncate_whole) (simp add: untruncated_lengths)
    then show ?thesis
      by (simp add: loss_mask_untruncated sum_list_replicate0 sum_list_replicate1)
  qed
  have window: "sum_list (loss_mask ?res) = int (response_ids_in_window ?msl ?p ?r)"
    if "?msl < int (?p + ?r)" and "0 < ?msl"
  proof -
    have "loss_mask ?res = last_elems (nat ?msl) (loss_mask ?u)"
      using that pad_or_truncate_truncate [of ?msl ?u] by (simp add: n map_items_def)
    then have "sum_list (loss_mask ?res) = int (min ?r (nat ?msl))"
      by (simp only: loss_mask_untruncated sum_last_elems_mask)
    moreover have "response_ids_in_window ?msl ?p ?r = min ?r (nat ?msl)"
      using that(2) by (intro response_ids_in_window_eq) simp
    ultimately show ?thesis
      by simp
  qed
  have "getitem self index = Inr ?res"
    using q a by (rule getitem_Inr)
  with fits window padded show ?thesis
    by blast
qed

text \<open>The example truncated to 3, kept whole at 14 and padded to 16 positions.\<close>

theorem loss_mask_sum_witness:
  "py_index (question (example_dataset 3)) 0 = Inr (py_str ''2+3'')
   \<and> py_index (answer (example_dataset 3)) 0 = Inr (py_str ''5'')
   \<and> max_seq_len (example_dataset 3) < int (8 + 6) \<and> 0 < max_seq_len (example_dataset 3)
   \<and> response_ids_in_window 3 8 6 = 3
   \<and> int (8 + 6) < max_seq_len (example_dataset 16)
   \<and> (\<exists>res. getitem (example_dataset 3) 0 = Inr res \<and> sum_list (loss_mask res) = 3)
   \<and> (\<exists>res. getitem (example_dataset 14) 0 = Inr res \<and> sum_list (loss_mask res) = 6)
   \<and> (\<exists>res. getitem (example_dataset 16) 0 = Inr res
          \<and> loss_mask res = replicate 8 0 @ replicate 6 1 @ replicate 2 0)"
  using loss_mask_sum [of "example_dataset 3" 0 "py_str ''2+3''" "py_str ''5''"]
    loss_mask_sum [of "example_dataset 14" 0 "py_str ''2+3''" "py_str ''5''"]
    loss_mask_sum [of "example_dataset 16" 0 "py_str ''2+3''" "py_str ''5''"]
  by (simp add: example_defs getitem_defs response_ids_in_window_def upt_rec replicate_numeral)

text \<open>
  Claim C2 as stated fails for \<open>max_seq_len = 0\<close>: the example is longer than the
  maximum, no response position lies in a window of no positions, and the mask that is
  returned still sums to the 6 response tokens.
\<close>

theorem loss_mask_sum_counterexample:
  "max_seq_len (example_dataset 0)
     < int (length (prompt_ids example_tokenizer (py_str ''2+3'') (py_str ''5''))
            + length (response_ids example_tokenizer (py_str ''2+3'') (py_str ''5'')))
   \<and> sum_list (loss_mask (projr (getitem (example_dataset 0) 0))) = 6
   \<and> response_ids_in_window (max_seq_len (example_dataset 0))
        (length (prompt_ids example_tokenizer (py_str ''2+3'') (py_str ''5'')))
        (length (response_ids example_tokenizer (py_str ''2+3'') (py_str ''5''))) = 0"
  by (simp add: example_defs getitem_defs response_ids_in_window_def upt_rec)

lemma endswith_append: "endswith (s @ suffix) suffix"
  by (simp add: endswith_def)

text \<open>
  Claim C3, as amended. When the suffix of the full rendering, with trailing whitespace
  stripped, already ends with the end-of-sequence token, the response string is that
  suffix unchanged, so it ends with the token only up to trailing whitespace; in every
  other case the token is appended and the response string ends with it.
\<close>

theorem response_str_eos:
  "(endswith (rstrip (response_suffix tok q a)) (eos_token tok)
      \<longrightarrow> response_str tok q a = response_suffix tok q a
          \<and> endswith (rstrip (response_str tok q a)) (eos_token tok))
   \<and> (\<not> endswith (rstrip (response_suffix tok q a)) (eos_token tok)
      \<longrightarrow> response_str tok q a = response_suffix tok q a @ eos_token tok
          \<and> endswith (response_str tok q a) (eos_token tok))"
  by (simp add: response_str_def Let_def endswith_append)

text \<open>
  Both cases on the example: the template's own \<open></s>\<close> followed by a newline, and
  a tokenizer whose end-of-sequence token the template does not write.
\<close>

theorem response_str_eos_witness:
  "endswith (rstrip (response_suffix example_tokenizer (py_str ''2+3'') (py_str ''5'')))
     (eos_token example_tokenizer)
   \<and> response_str example_tokenizer (py_str ''2+3'') (py_str ''5'') = py_str ''5</s>'' @ [10]
   \<and> endswith (rstrip (response_str example_tokenizer (py_str ''2+3'') (py_str ''5'')))
         (eos_token example_tokenizer)
   \<and> \<not> endswith (rstrip (response_suffix (example_tokenizer\<lparr>eos_token := py_str ''<eos>''\<rparr>)
                        (py_str ''2+3'') (py_str ''5'')))
           (eos_token (example_tokenizer\<lparr>eos_token := py_str ''<eos>''\<rparr>))
   \<and> response_str (example_tokenizer\<lparr>eos_token := py_str ''<eos>''\<rparr>) (py_str ''2+3'') (py_str ''5'')
       = py_str ''5</s>'' @ [10] @ py_str ''<eos>''
   \<and> endswith (response_str (example_tokenizer\<lparr>eos_token := py_str ''<eos>''\<rparr>)
                 (py_str ''2+3'') (py_str ''5''))
         (eos_token (example_tokenizer\<lparr>eos_token := py_str ''<eos>''\<rparr>))"
  using response_str_eos [of example_tokenizer "py_str ''2+3''" "py_str ''5''"]
    response_str_eos [of "example_tokenizer\<lparr>eos_token := py_str ''<eos>''\<rparr>"
                         "py_str ''2+3''" "py_str ''5''"]
  by (simp add: example_defs getitem_defs)

text \<open>
  Claim C3 as stated fails for a template that writes a newline after the
  end-of-sequence token: nothing is appended and the response string ends with the
  newline.
\<close>

theorem response_str_eos_counterexample:
  "response_str example_tokenizer (py_str ''2+3'') (py_str ''5'') = py_str ''5</s>'' @ [10]
   \<and> \<not> endswith (response_str example_tokenizer (py_str ''2+3'') (py_str ''5''))
           (eos_token example_tokenizer)"
  by (simp add: example_defs getitem_defs)

text \<open>
  Claim C4, as amended. When the concatenated length is below \<open>max_seq_len\<close>, every
  tensor is the untruncated one followed by zeros up to \<open>max_seq_len\<close>; when it is at
  least \<open>max_seq_len\<close>, nothing is appended: every tensor is the untruncated one
  without some of its first elements, the same number for all four; and when moreover
  \<open>max_seq_len\<close> is positive, every tensor is exactly the last \<open>max_seq_len\<close>
  elements of the untruncated one.
\<close>

theorem pad_or_truncate_cases:
  assumes q: "py_index (question self) index = Inr q"
    and a: "py_index (answer self) index = Inr a"
  shows "(int (length (input_ids (untruncated (tokenizer self) q a))) < max_seq_len self
      \<longrightarrow> getitem self index =
            Inr (map_items
                  (\<lambda>v. v @ replicate
                         (nat (max_seq_len self) - length (input_ids (untruncated (tokenizer self) q a)))
                         0)
                  (untruncated (tokenizer self) q a)))
   \<and> (max_seq_len self \<le> int (length (input_ids (untruncated (tokenizer self) q a)))
      \<longrightarrow> (\<exists>k. getitem self index = Inr (map_items (drop k) (untruncated (tokenizer self) q a))))
   \<and> (max_seq_len self \<le> int (length (input_ids (untruncated (tokenizer self) q a)))
        \<and> 0 < max_seq_len self
      \<longrightarrow> getitem self index =
            Inr (map_items (last_elems (nat (max_seq_len self)))
                  (untruncated (tokenizer self) q a)))"
proof -
  let ?u = "untruncated (tokenizer self) q a" and ?msl = "max_seq_len self"
  have g: "getitem self index = Inr (pad_or_truncate ?msl ?u)"
    using q a by (rule getitem_Inr)
  have "nat (?msl - int (length (input_ids ?u))) = nat ?msl - length (input_ids ?u)"
    by (simp add: nat_diff_distrib')
  then have padded: "int (length (input_ids ?u)) < ?msl \<longrightarrow>
      pad_or_truncate ?msl ?u =
        map_items (\<lambda>v. v @ replicate (nat ?msl - length (input_ids ?u)) 0) ?u"
    using pad_or_truncate_pad [of ?u ?msl] by simp
  have suffix: "\<exists>k. pad_or_truncate ?msl ?u = map_items (drop k) ?u"
    if "?msl \<le> int (length (input_ids ?u))"
    using that pad_or_truncate_slice [of ?msl ?u] by (auto simp: untruncated_lengths)
  have truncated: "?msl \<le> int (length (input_ids ?u)) \<and> 0 < ?msl \<longrightarrow>
      pad_or_truncate ?msl ?u = map_items (last_elems (nat ?msl)) ?u"
    using pad_or_truncate_truncate [of ?msl ?u] by simp
  from padded suffix truncated show ?thesis
    unfolding g by blast
qed

text \<open>The example padded to 16 and truncated to 3 positions.\<close>

theorem pad_or_truncate_cases_witness:
  "py_index (question (example_dataset 16)) 0 = Inr (py_str ''2+3'')
   \<and> py_index (answer (example_dataset 16)) 0 = Inr (py_str ''5'')
   \<and> int (length (input_ids (untruncated example_tokenizer (py_str ''2+3'') (py_str ''5'')))) < 16
   \<and> getitem (example_dataset 16) 0 =
       Inr \<lparr>input_ids = [85, 58, 50, 43, 51, 10, 65, 58, 53, 60, 47, 115, 62, 10, 0, 0],
            attention_mask = [1, 1, 1, 1, 1, 1, 1, 1, 1, 1, 1, 1, 1, 1, 0, 0],
            position_ids = [0, 1, 2, 3, 4, 5, 6, 7, 8, 9, 10, 11, 12, 13, 0, 0],
            loss_mask = [0, 0, 0, 0, 0, 0, 0, 0, 1, 1, 1, 1, 1, 1, 0, 0]\<rparr>
   \<and> 3 \<le> int (length (input_ids (untruncated example_tokenizer (py_str ''2+3'') (py_str ''5''))))
   \<and> getitem (example_dataset 3) 0 =
       Inr \<lparr>input_ids = [115, 62, 10], attention_mask = [1, 1, 1],
            position_ids = [11, 12, 13], loss_mask = [1, 1, 1]\<rparr>"
  using pad_or_truncate_cases [of "example_dataset 16" 0 "py_str ''2+3''" "py_str ''5''"]
    pad_or_truncate_cases [of "example_dataset 3" 0 "py_str ''2+3''" "py_str ''5''"]
  by (simp add: example_defs getitem_defs last_elems_def upt_rec replicate_numeral)

text \<open>
  Claim C4 as stated fails for \<open>max_seq_len = 0\<close>: the length 14 is at least the
  maximum, the last 0 elements are the empty tensor, and all 14 elements are returned.
\<close>

theorem pad_or_truncate_cases_counterexample:
  "max_seq_len (example_dataset 0)
     \<le> int (length (input_ids (untruncated example_tokenizer (py_str ''2+3'') (py_str ''5''))))
   \<and> input_ids (projr (getitem (example_dataset 0) 0))
       = [85, 58, 50, 43, 51, 10, 65, 58, 53, 60, 47, 115, 62, 10]
   \<and> last_elems (nat (max_seq_len (example_dataset 0)))
        (input_ids (untruncated example_tokenizer (py_str ''2+3'') (py_str ''5''))) = []"
  by (simp add: example_defs getitem_defs last_elems_def upt_rec)

section \<open>Properties of the interactive chat loop\<close>

lemmas strip_defs = strip_def lstrip_def rstrip_def py_isspace_def py_str_def

text \<open>
  Claim C10. The loop compares the stripped line with its two commands: a line that
  strips to \<open>exit\<close> ends the loop with the history as it is, a line that strips to
  \<open>clear\<close> empties the history, and for any other line the line itself, whitespace
  included, becomes the content of the user turn that is appended, followed by the
  assistant turn with the model's response.
\<close>

theorem repl_commands:
  "(strip query = py_str ''exit''
      \<longrightarrow> repl_iteration respond g messages query = None
          \<and> repl respond g messages (query # rest) = Inr messages)
   \<and> (strip query = py_str ''clear''
      \<longrightarrow> repl_iteration respond g messages query = Some ([], g)
          \<and> repl respond g messages (query # rest) = repl respond g [] rest)
   \<and> (strip query \<noteq> py_str ''exit'' \<and> strip query \<noteq> py_str ''clear''
      \<longrightarrow> (\<exists>response g'.
             respond g (messages @ [\<lparr>role = py_str ''user'', content = query\<rparr>]) = (response, g')
             \<and> repl_iteration respond g messages query =
                 Some (messages @ [\<lparr>role = py_str ''user'', content = query\<rparr>,
                                   \<lparr>role = py_str ''assistant'', content = response\<rparr>], g')
             \<and> repl respond g messages (query # rest) =
                 repl respond g'
                   (messages @ [\<lparr>role = py_str ''user'', content = query\<rparr>,
                                \<lparr>role = py_str ''assistant'', content = response\<rparr>]) rest))"
  by (auto simp: repl_iteration_def py_str_def Let_def split: prod.splits)

text \<open>The three cases on lines with surrounding whitespace.\<close>

theorem repl_commands_witness:
  "strip (32 # py_str ''exit'' @ [10]) = py_str ''exit''
   \<and> repl example_respond 0 [\<lparr>role = py_str ''user'', content = py_str ''a''\<rparr>]
        [32 # py_str ''exit'' @ [10], py_str ''b'']
       = Inr [\<lparr>role = py_str ''user'', content = py_str ''a''\<rparr>]
   \<and> strip (py_str ''clear '') = py_str ''clear''
   \<and> repl_iteration example_respond 0 [\<lparr>role = py_str ''user'', content = py_str ''a''\<rparr>]
        (py_str ''clear '') = Some ([], 0)
   \<and> strip (py_str '' hi '') \<noteq> py_str ''exit'' \<and> strip (py_str '' hi '') \<noteq> py_str ''clear''
   \<and> repl_iteration example_respond 0 [] (py_str '' hi '')
       = Some ([\<lparr>role = py_str ''user'', content = py_str '' hi ''\<rparr>,
                \<lparr>role = py_str ''assistant'', content = py_str ''ok''\<rparr>], 1)"
  using repl_commands [of "32 # py_str ''exit'' @ [10]" example_respond 0
          "[\<lparr>role = py_str ''user'', content = py_str ''a''\<rparr>]" "[py_str ''b'']"]
    repl_commands [of "py_str ''clear ''" example_respond 0
          "[\<lparr>role = py_str ''user'', content = py_str ''a''\<rparr>]"]
    repl_commands [of "py_str '' hi ''" example_respond 0 "[]"]
  by (simp add: strip_defs example_respond_def)

section \<open>Properties of the trainer\<close>

lemma normalize_ok:
  "0 < mesh_size mesh \<Longrightarrow> int (mesh_size mesh) dvd total_batch_size (data cfg) \<Longrightarrow>
   int (mesh_size mesh) dvd micro_batch_size (data cfg) \<Longrightarrow>
   normalize_config_bsz cfg mesh =
     Inr (cfg\<lparr>data := (data cfg)
            \<lparr>total_batch_size := total_batch_size (data cfg) div int (mesh_size mesh),
             micro_batch_size := micro_batch_size (data cfg) div int (mesh_size mesh)\<rparr>\<rparr>)"
  by (simp add: normalize_config_bsz_def Let_def mod_eq_0_iff_dvd)

lemma normalize_fail:
  "0 < mesh_size mesh \<Longrightarrow>
   \<not> (int (mesh_size mesh) dvd total_batch_size (data cfg)
      \<and> int (mesh_size mesh) dvd micro_batch_size (data cfg)) \<Longrightarrow>
   normalize_config_bsz cfg mesh = Inl AssertionError"
  by (auto simp: normalize_config_bsz_def Let_def mod_eq_0_iff_dvd)

text \<open>
  Claim C6. On a mesh of at least one device: when the total or the micro batch size is
  not a multiple of the mesh size, \<open>_normalize_config_bsz\<close> raises
  \<open>AssertionError\<close>, which ends \<open>__init__\<close> and \<open>main\<close> with that error, so
  \<open>fit\<close> and its training steps never start and nothing is tried again; when both
  are multiples, the check is passed and both sizes are divided by the mesh size.
\<close>

theorem normalize_config_bsz_divisibility:
  assumes "0 < world_size"
  shows "(\<not> (int world_size dvd total_batch_size (data cfg)
            \<and> int world_size dvd micro_batch_size (data cfg))
      \<longrightarrow> normalize_config_bsz cfg \<lparr>mesh_size = world_size, get_rank = rank\<rparr> = Inl AssertionError
          \<and> init fw cfg \<lparr>mesh_size = world_size, get_rank = rank\<rparr> = Inl AssertionError
          \<and> main fw sched cfg world_size rank = Inl AssertionError)
   \<and> (int world_size dvd total_batch_size (data cfg)
        \<and> int world_size dvd micro_batch_size (data cfg)
      \<longrightarrow> normalize_config_bsz cfg \<lparr>mesh_size = world_size, get_rank = rank\<rparr> =
            Inr (cfg\<lparr>data := (data cfg)
                   \<lparr>total_batch_size := total_batch_size (data cfg) div int world_size,
                    micro_batch_size := micro_batch_size (data cfg) div int world_size\<rparr>\<rparr>))"
proof -
  let ?mesh = "\<lparr>mesh_size = world_size, get_rank = rank\<rparr>"
  have pos: "0 < mesh_size ?mesh"
    using assms by simp
  have fails: "init fw cfg ?mesh = Inl AssertionError \<and> main fw sched cfg world_size rank = Inl AssertionError"
    if "normalize_config_bsz cfg ?mesh = Inl AssertionError"
    using that by (simp add: init_def main_def Let_def)
  show ?thesis
    using normalize_fail [OF pos, of cfg] normalize_ok [OF pos, of cfg] fails
    by auto
qed

text \<open>The example batch sizes 8 and 4 on meshes of 3 and of 2 devices.\<close>

theorem normalize_config_bsz_divisibility_witness:
  "(0::nat) < 2
   \<and> \<not> (int 3 dvd total_batch_size (data example_config)
         \<and> int 3 dvd micro_batch_size (data example_config))
   \<and> main example_framework example_schedule example_config 3 0 = Inl AssertionError
   \<and> int 2 dvd total_batch_size (data example_config)
   \<and> int 2 dvd micro_batch_size (data example_config)
   \<and> normalize_config_bsz example_config \<lparr>mesh_size = 2, get_rank = 0\<rparr> =
       Inr (example_config\<lparr>data := (data example_config)
              \<lparr>total_batch_size := 4, micro_batch_size := 2\<rparr>\<rparr>)"
  using normalize_config_bsz_divisibility [of 3 example_config 0 example_framework example_schedule]
    normalize_config_bsz_divisibility [of 2 example_config 0 example_framework example_schedule]
  by (simp add: example_config_def)

subsection \<open>Splitting a batch\<close>

lemma chunks_Nil: "chunks n [] = []" by simp
lemma chunks_0: "chunks 0 xs = []" by simp
lemma chunks_step: "0 < n \<Longrightarrow> xs \<noteq> [] \<Longrightarrow> chunks n xs = take n xs # chunks n (drop n xs)" by simp
declare chunks.simps [simp del]

lemma concat_chunks: "0 < n \<Longrightarrow> concat (chunks n xs) = xs"
proof (induction n xs rule: chunks.induct)
  case (1 n xs)
  show ?case
  proof (cases "xs = []")
    case True
    then show ?thesis by (simp add: chunks_Nil)
  next
    case False
    with 1 show ?thesis by (simp add: chunks_step)
  qed
qed

lemma chunks_sizes: "0 < n \<Longrightarrow> mb \<in> set (chunks n xs) \<Longrightarrow> 0 < length mb \<and> length mb \<le> n"
proof (induction n xs rule: chunks.induct)
  case (1 n xs)
  show ?case
  proof (cases "xs = []")
    case True
    with "1.prems" show ?thesis by (simp add: chunks_Nil)
  next
    case False
    with 1 show ?thesis by (auto simp: chunks_step)
  qed
qed

lemma chunks_full: "0 < n \<Longrightarrow> mb \<in> set (butlast (chunks n xs)) \<Longrightarrow> length mb = n"
proof (induction n xs rule: chunks.induct)
  case (1 n xs)
  show ?case
  proof (cases "xs = []")
    case True
    with "1.prems" show ?thesis by (simp add: chunks_Nil)
  next
    case False
    show ?thesis
    proof (cases "drop n xs = []")
      case True
      with False "1.prems" show ?thesis by (simp add: chunks_step chunks_Nil)
    next
      case d: False
      then have "chunks n (drop n xs) \<noteq> []"
        using "1.prems"(1) by (simp add: chunks_step [of n "drop n xs"])
      with False d 1 show ?thesis
        by (auto simp: chunks_step [of n xs])
    qed
  qed
qed

subsection \<open>The masked loss\<close>

lemma weighted_Cons:
  assumes "length l = length (input_ids row)" and "length (loss_mask row) = length (input_ids row)"
  shows "map2 g (map2 ce (shift_logits (l # ls)) (shift_labels (row # rows)))
           (shift_loss_mask (row # rows)) =
         map2 g (map2 ce (butlast l) (tl (input_ids row))) (butlast (loss_mask row))
         @ map2 g (map2 ce (shift_logits ls) (shift_labels rows)) (shift_loss_mask rows)"
  using assms
  by (simp add: shift_logits_def shift_labels_def shift_loss_mask_def zip_append)

lemma weighted_row:
  assumes "length l = L" and "length ids = L" and "length msk = L"
  shows "map2 g (map2 ce (butlast l) (tl ids)) (butlast msk) =
           map (\<lambda>i. g (ce (l ! i) (ids ! Suc i)) (msk ! i)) [0 ..< L - 1]"
  using assms by (intro nth_equalityI) (auto simp: nth_butlast nth_tl)

lemma weighted_rows:
  assumes "length logits = length b"
    and "\<forall>l \<in> set logits. length l = L"
    and "\<forall>row \<in> set b. length (input_ids row) = L \<and> length (loss_mask row) = L"
  shows "map2 g (map2 ce (shift_logits logits) (shift_labels b)) (shift_loss_mask b) =
           concat (map2 (\<lambda>l row. map (\<lambda>i. g (ce (l ! i) (input_ids row ! Suc i))
                                            (loss_mask row ! i)) [0 ..< L - 1])
                     logits b)"
  using assms
proof (induction logits b rule: list_induct2)
  case Nil
  then show ?case
    by (simp add: shift_logits_def shift_labels_def shift_loss_mask_def)
next
  case (Cons l ls row rows)
  then have "map2 g (map2 ce (shift_logits (l # ls)) (shift_labels (row # rows)))
               (shift_loss_mask (row # rows)) =
      map2 g (map2 ce (butlast l) (tl (input_ids row))) (butlast (loss_mask row))
      @ map2 g (map2 ce (shift_logits ls) (shift_labels rows)) (shift_loss_mask rows)"
    by (intro weighted_Cons) simp_all
  also have "map2 g (map2 ce (butlast l) (tl (input_ids row))) (butlast (loss_mask row)) =
      map (\<lambda>i. g (ce (l ! i) (input_ids row ! Suc i)) (loss_mask row ! i)) [0 ..< L - 1]"
    using Cons.prems by (intro weighted_row) simp_all
  finally show ?case
    using Cons by simp
qed

lemma shift_loss_mask_zero:
  assumes "\<forall>row \<in> set b. \<forall>i < length (loss_mask row) - 1. loss_mask row ! i = 0"
  shows "\<forall>m \<in> set (shift_loss_mask b). m = 0"
proof
  fix m assume "m \<in> set (shift_loss_mask b)"
  then obtain row where row: "row \<in> set b" and m: "m \<in> set (butlast (loss_mask row))"
    by (auto simp: shift_loss_mask_def)
  from m obtain i where "i < length (butlast (loss_mask row))" and "butlast (loss_mask row) ! i = m"
    by (auto simp: in_set_conv_nth)
  then have "i < length (loss_mask row) - 1" and "loss_mask row ! i = m"
    by (simp_all add: nth_butlast)
  with assms row show "m = 0"
    by auto
qed

lemma float_mult_finite_zero: "is_finite x \<Longrightarrow> float_mult x (Fin 0) = Fin 0"
  by (cases x) simp_all

lemma float_sum_zeros: "\<forall>x \<in> set xs. x = Fin 0 \<Longrightarrow> float_sum xs = Fin 0"
  unfolding float_sum_def by (induction xs) simp_all

lemma float_masked_losses_zero:
  assumes "\<forall>m \<in> set (shift_loss_mask b). m = 0"
    and "list_all is_finite (float_losses ce logits b)"
  shows "float_sum (float_masked_losses ce logits b) = Fin 0"
proof -
  have "x = Fin 0" if "x \<in> set (float_masked_losses ce logits b)" for x
  proof -
    from that obtain l m where "(l, m) \<in> set (zip (float_losses ce logits b) (shift_loss_mask b))"
      and x: "x = float_mult l (Fin (real_of_int m))"
      by (auto simp: float_masked_losses_def Let_def)
    then have "l \<in> set (float_losses ce logits b)" and "m \<in> set (shift_loss_mask b)"
      by (auto dest: set_zip_leftD set_zip_rightD)
    with assms have "is_finite l" and "m = 0"
      by (auto simp: list_all_iff)
    with x show ?thesis
      by (simp add: float_mult_finite_zero)
  qed
  then show ?thesis
    by (intro float_sum_zeros) blast
qed

text \<open>On finite losses the floating-point products are those of \<open>masked_losses\<close>.\<close>

lemma float_masked_losses_finite:
  "float_masked_losses (\<lambda>v y. Fin (ce v y)) logits b = map Fin (masked_losses ce logits b)"
  by (simp add: float_masked_losses_def float_losses_def masked_losses_def Let_def
      zip_map1 zip_map2 case_prod_unfold)

text \<open>
  Claim C9, as amended. For a batch whose rows have \<open>L\<close> positions and logits of the
  same shape: the flattened mask is the first \<open>L - 1\<close> entries of every row's loss
  mask, so the final position of the mask is dropped; the masked loss at position \<open>i\<close>
  of a row, for \<open>i\<close> from \<open>0\<close> to \<open>L - 2\<close>, is the cross-entropy of the logits
  at position \<open>i\<close> against the label \<open>input_ids[i + 1]\<close>, multiplied by
  \<open>loss_mask[i]\<close>, so the token at the last position is a target only under the mask
  entry before it; and when the loss mask is zero at positions \<open>0\<close> to \<open>L - 2\<close> of
  every row and every per-token cross-entropy loss is finite, the masked losses sum to
  zero.
\<close>

theorem float_masked_losses_alignment:
  assumes "length logits = length b"
    and "\<forall>l \<in> set logits. length l = L"
    and "\<forall>row \<in> set b. length (input_ids row) = L \<and> length (loss_mask row) = L"
  shows "shift_loss_mask b = concat (map (\<lambda>row. take (L - 1) (loss_mask row)) b)
    \<and> float_masked_losses ce logits b =
        concat (map2 (\<lambda>l row. map (\<lambda>i. float_mult (ce (l ! i) (input_ids row ! Suc i))
                                                (Fin (real_of_int (loss_mask row ! i))))
                                  [0 ..< L - 1])
                  logits b)
    \<and> ((\<forall>row \<in> set b. \<forall>i < L - 1. loss_mask row ! i = 0)
          \<and> list_all is_finite (float_losses ce logits b)
         \<longrightarrow> float_sum (float_masked_losses ce logits b) = Fin 0)"
proof (intro conjI impI)
  show "shift_loss_mask b = concat (map (\<lambda>row. take (L - 1) (loss_mask row)) b)"
    using assms(3)
    by (auto simp: shift_loss_mask_def butlast_conv_take intro!: arg_cong [where f = concat])
  show "float_masked_losses ce logits b =
        concat (map2 (\<lambda>l row. map (\<lambda>i. float_mult (ce (l ! i) (input_ids row ! Suc i))
                                                (Fin (real_of_int (loss_mask row ! i))))
                                  [0 ..< L - 1])
                  logits b)"
    unfolding float_masked_losses_def float_losses_def Let_def
    using assms by (rule weighted_rows)
  assume z: "(\<forall>row \<in> set b. \<forall>i < L - 1. loss_mask row ! i = 0)
               \<and> list_all is_finite (float_losses ce logits b)"
  with assms(3) have "\<forall>row \<in> set b. \<forall>i < length (loss_mask row) - 1. loss_mask row ! i = 0"
    by simp
  then have "\<forall>m \<in> set (shift_loss_mask b). m = 0"
    by (rule shift_loss_mask_zero)
  with z show "float_sum (float_masked_losses ce logits b) = Fin 0"
    by (intro float_masked_losses_zero) simp_all
qed

text \<open>
  One row of three positions with the finite losses 2 and 3: with the mask
  \<open>[0, 1, 1]\<close> only position 1 counts; with the mask \<open>[0, 0, 1]\<close> the one at the
  last position weights nothing and the sum is zero.
\<close>

theorem float_masked_losses_alignment_witness:
  "float_masked_losses example_nll [[Fin (- 2), Fin (- 3), Fin (- 4)]] [example_row [0, 1, 1]]
     = [Fin 0, Fin 3]
   \<and> float_losses example_nll [[Fin (- 2), Fin (- 3), Fin (- 4)]] [example_row [0, 0, 1]]
     = [Fin 2, Fin 3]
   \<and> float_masked_losses example_nll [[Fin (- 2), Fin (- 3), Fin (- 4)]] [example_row [0, 0, 1]]
     = [Fin 0, Fin 0]
   \<and> float_sum (float_masked_losses example_nll [[Fin (- 2), Fin (- 3), Fin (- 4)]]
                  [example_row [0, 0, 1]]) = Fin 0"
  using float_masked_losses_alignment
          [of "[[Fin (- 2), Fin (- 3), Fin (- 4)]]" "[example_row [0, 1, 1]]" 3 example_nll]
    float_masked_losses_alignment
          [of "[[Fin (- 2), Fin (- 3), Fin (- 4)]]" "[example_row [0, 0, 1]]" 3 example_nll]
  by (simp add: example_row_def float_losses_def float_sum_def shift_logits_def
      shift_labels_def upt_rec less_Suc_eq numeral_3_eq_3)

text \<open>
  Claim C9 as stated fails for logits with an infinite cross-entropy: the mask is zero at
  positions 0 and 1, the loss at position 0 is infinite, its product with the mask entry
  0 is NaN, and so is the sum.
\<close>

theorem float_masked_losses_alignment_counterexample:
  "take 2 (loss_mask (example_row [0, 0, 1])) = [0, 0]
   \<and> float_losses example_nll [[NInf, Fin (- 3), Fin (- 4)]] [example_row [0, 0, 1]]
     = [PInf, Fin 3]
   \<and> float_masked_losses example_nll [[NInf, Fin (- 3), Fin (- 4)]] [example_row [0, 0, 1]]
     = [NaN, Fin 0]
   \<and> float_sum (float_masked_losses example_nll [[NInf, Fin (- 3), Fin (- 4)]]
                  [example_row [0, 0, 1]]) = NaN
   \<and> float_sum (float_masked_losses example_nll [[NInf, Fin (- 3), Fin (- 4)]]
                  [example_row [0, 0, 1]]) \<noteq> Fin 0"
  by (simp add: example_row_def float_masked_losses_def float_losses_def float_sum_def
      shift_logits_def shift_labels_def shift_loss_mask_def)

subsection \<open>The training step\<close>

lemma compute_loss_masked_mean:
  "compute_loss fw self True peer_counts mb = masked_mean_loss fw self peer_counts mb"
  by (simp add: compute_loss_def masked_mean_loss_def valid_token_count_def all_reduce_sum_def
      Let_def)

lemma micro_batch_loop_step_loss:
  "fst (micro_batch_loop fw self ps n j mbs (acc, opt)) =
     acc + sum_list (map (\<lambda>(i, mb). masked_mean_loss fw self (peer_valid_tokens ps i) mb / real n)
                       (enumerate j mbs))"
  by (induction mbs arbitrary: j acc opt) (simp_all add: Let_def compute_loss_masked_mean)

text \<open>
  Claim C5. With a positive micro batch size, a training step splits a batch (the loader
  yields no empty one) into \<open>n\<close> micro-batches that make up the batch in order, each but the last of exactly
  the micro batch size and the last no larger, and returns a loss. Where no valid-token
  count is zero, that loss is the averaging all-reduce, over the ranks, of the sum over
  the micro-batches of the masked-mean loss scaled by \<open>1 / n\<close>: the masked-mean loss
  is the sum of the per-token cross-entropy losses weighted by the loss mask, divided by
  the valid-token count, and the valid-token count is the all-reduce sum over the ranks
  divided by the world size when token-count balancing is enabled and the local sum of
  the mask otherwise. Losses are carried as real numbers, without the rounding of the
  floating-point operations.
\<close>

theorem training_step_loss:
  assumes "0 < micro_batch_size (data (config self))" and "b \<noteq> []"
  shows "\<exists>m self1. training_step fw self ps b = Inr (m, self1)
    \<and> concat (chunks (nat (micro_batch_size (data (config self)))) b) = b
    \<and> (\<forall>mb \<in> set (chunks (nat (micro_batch_size (data (config self)))) b).
          0 < length mb \<and> int (length mb) \<le> micro_batch_size (data (config self)))
    \<and> (\<forall>mb \<in> set (butlast (chunks (nat (micro_batch_size (data (config self)))) b)).
          int (length mb) = micro_batch_size (data (config self)))
    \<and> (list_all (\<lambda>(j, mb). valid_token_count (balance_dp_token (data (config self)))
                              (mesh_size (device_mesh self)) (sum_list (shift_loss_mask mb))
                              (peer_valid_tokens ps j) \<noteq> 0)
          (enumerate 0 (chunks (nat (micro_batch_size (data (config self)))) b))
        \<longrightarrow> train_loss m =
              all_reduce_avg (mesh_size (device_mesh self))
                (sum_list
                   (map (\<lambda>(j, mb). masked_mean_loss fw self (peer_valid_tokens ps j) mb
                                     / real (length (chunks (nat (micro_batch_size
                                                                   (data (config self)))) b)))
                      (enumerate 0 (chunks (nat (micro_batch_size (data (config self)))) b))))
                (peer_losses ps))"
proof -
  let ?k = "nat (micro_batch_size (data (config self)))"
  let ?mbs = "chunks ?k b"
  have k: "0 < ?k"
    using assms(1) by simp
  have split: "split_batch (micro_batch_size (data (config self))) b = Inr ?mbs"
    using assms(1) by (simp add: split_batch_def)
  obtain step_loss opt1 where loop:
    "micro_batch_loop fw self ps (length ?mbs) 0 ?mbs (0, zero_grad fw (optimizer self))
       = (step_loss, opt1)"
    by (cases "micro_batch_loop fw self ps (length ?mbs) 0 ?mbs (0, zero_grad fw (optimizer self))")
  have step_loss: "step_loss =
      sum_list (map (\<lambda>(j, mb). masked_mean_loss fw self (peer_valid_tokens ps j) mb
                                 / real (length ?mbs))
                  (enumerate 0 ?mbs))"
    using micro_batch_loop_step_loss
            [of fw self ps "length ?mbs" 0 ?mbs 0 "zero_grad fw (optimizer self)"] loop
    by simp
  obtain weights opt3 where
    os: "optimizer_step fw (fsdp_model self)
           (clip_grad_norm fw (clip_grad (optim (config self))) opt1) = (weights, opt3)"
    by (cases "optimizer_step fw (fsdp_model self)
                 (clip_grad_norm fw (clip_grad (optim (config self))) opt1)")
  let ?m = "\<lparr>train_loss =
                all_reduce_avg (mesh_size (device_mesh self)) step_loss (peer_losses ps),
              train_lr = get_last_lr fw (lr_scheduler_step fw opt3)\<rparr>"
  let ?self1 = "self\<lparr>fsdp_model := weights, optimizer := lr_scheduler_step fw opt3\<rparr>"
  have ts: "training_step fw self ps b = Inr (?m, ?self1)"
    using split loop os by (simp add: training_step_def Let_def)
  have m: "train_loss ?m =
             all_reduce_avg (mesh_size (device_mesh self)) step_loss (peer_losses ps)"
    by simp
  have sizes: "\<forall>mb \<in> set ?mbs. 0 < length mb \<and> int (length mb) \<le> micro_batch_size (data (config self))"
    using chunks_sizes [OF k, of _ b] assms(1) by fastforce
  have full: "\<forall>mb \<in> set (butlast ?mbs). int (length mb) = micro_batch_size (data (config self))"
    using chunks_full [OF k, of _ b] assms(1) by fastforce
  from ts m step_loss sizes full concat_chunks [OF k, of b] show ?thesis
    by blast
qed

text \<open>
  The example batch of four rows in two micro-batches of two: each has the masked sum 37
  and the balanced count 3, so the local loss is \<open>37 / 3\<close> and its average with the
  other rank's loss 1 is \<open>20 / 3\<close>.
\<close>

theorem training_step_loss_witness:
  "\<exists>m self1. training_step example_framework example_trainer example_peers example_batch
                = Inr (m, self1)
     \<and> train_loss m = 20 / 3"
proof -
  have pos: "0 < micro_batch_size (data (config example_trainer))"
    by code_simp
  have nonempty: "example_batch \<noteq> []"
    by (simp add: example_batch_def)
  have nonzero:
    "list_all (\<lambda>(j, mb). valid_token_count (balance_dp_token (data (config example_trainer)))
                              (mesh_size (device_mesh example_trainer))
                              (sum_list (shift_loss_mask mb))
                              (peer_valid_tokens example_peers j) \<noteq> 0)
       (enumerate 0 (chunks (nat (micro_batch_size (data (config example_trainer))))
                       example_batch))"
    by code_simp
  have val:
    "all_reduce_avg (mesh_size (device_mesh example_trainer))
       (sum_list
          (map (\<lambda>(j, mb). masked_mean_loss example_framework example_trainer
                              (peer_valid_tokens example_peers j) mb
                            / real (length (chunks (nat (micro_batch_size
                                                          (data (config example_trainer))))
                                              example_batch)))
             (enumerate 0 (chunks (nat (micro_batch_size (data (config example_trainer))))
                             example_batch))))
       (peer_losses example_peers) = 20 / 3"
    by code_simp
  from training_step_loss [OF pos nonempty, of example_framework example_peers]
    nonzero val
  show ?thesis
    by metis
qed

subsection \<open>The configuration\<close>

lemma training_step_config:
  "training_step fw self ps b = Inr (m, self') \<Longrightarrow> config self' = config self"
  by (auto simp: training_step_def Let_def split: sum.splits prod.splits)

lemma validation_step_config: "config (snd (validation_step fw self ps b)) = config self"
  by (simp add: validation_step_def Let_def)

lemma save_checkpoint_config: "config (snd (save_checkpoint fw self step)) = config self"
  by (simp add: save_checkpoint_def Let_def)

lemma train_loop_config:
  "train_loop fw sched bs (self, g, ev) = Inr (self', g', ev') \<Longrightarrow> config self' = config self"
proof (induction bs arbitrary: self g ev)
  case Nil
  then show ?case by simp
next
  case (Cons b bs)
  from Cons.prems obtain m self1 where
    step: "training_step fw self (train_peers sched g) b = Inr (m, self1)"
    and rest: "train_loop fw sched bs
                 (self1, Suc g,
                  ev @ (if get_rank (device_mesh self1) = 0 then [TrainMetric g m] else []))
               = Inr (self', g', ev')"
    by (auto split: sum.splits)
  from Cons.IH [OF rest] training_step_config [OF step] show ?case
    by simp
qed

lemma val_loop_config: "config (fst (val_loop fw vp k bs (self, losses))) = config self"
proof (induction bs arbitrary: self k losses)
  case Nil
  then show ?case by simp
next
  case (Cons b bs)
  obtain l self1 where v: "validation_step fw self (vp k) b = (l, self1)"
    by (cases "validation_step fw self (vp k) b")
  then have "config self1 = config self"
    using validation_step_config [of fw self "vp k" b] by simp
  with Cons.IH [of "Suc k" self1 "losses @ [l]"] v show ?case
    by simp
qed

lemma epoch_loop_config:
  "epoch_loop fw sched es (self, g, ev) = Inr (self', g', ev') \<Longrightarrow> config self' = config self"
proof (induction es arbitrary: self g ev)
  case Nil
  then show ?case by simp
next
  case (Cons e es)
  from Cons.prems obtain self1 g1 ev1 where
    tl: "train_loop fw sched (train_dataloader self e) (self, g, ev) = Inr (self1, g1, ev1)"
    by (auto split: sum.splits)
  obtain self2 losses where
    vl: "val_loop fw (val_peers sched e) 0 (val_dataloader self1 e) (self1, []) = (self2, losses)"
    by (cases "val_loop fw (val_peers sched e) 0 (val_dataloader self1 e) (self1, [])")
  obtain ckpt self3 where sc: "save_checkpoint fw self2 g1 = (ckpt, self3)"
    by (cases "save_checkpoint fw self2 g1")
  from Cons.prems tl vl sc obtain ev3 where
    rest: "epoch_loop fw sched es (self3, g1, ev3) = Inr (self', g', ev')"
    by (auto simp: Let_def split: if_splits)
  have "config self1 = config self"
    using tl by (rule train_loop_config)
  moreover have "config self2 = config self1"
    using val_loop_config [of fw "val_peers sched e" 0 "val_dataloader self1 e" self1 "[]"] vl
    by simp
  moreover have "config self3 = config self2"
    using save_checkpoint_config [of fw self2 g1] sc by simp
  ultimately show ?case
    using Cons.IH [OF rest] by simp
qed

lemma fit_config: "fit fw sched self = Inr (self', g', ev') \<Longrightarrow> config self' = config self"
  unfolding fit_def by (rule epoch_loop_config)

lemma init_config:
  assumes "init fw cfg mesh = Inr self"
  shows "config self =
           cfg\<lparr>data := (data cfg)
                 \<lparr>total_batch_size := total_batch_size (data cfg) div int (mesh_size mesh),
                  micro_batch_size := micro_batch_size (data cfg) div int (mesh_size mesh)\<rparr>\<rparr>"
proof -
  from assms obtain cfg1 where n: "normalize_config_bsz cfg mesh = Inr cfg1"
    and c: "config self = cfg1"
    by (auto simp: init_def Let_def split: sum.splits prod.splits)
  from n have "cfg1 = cfg\<lparr>data := (data cfg)
                 \<lparr>total_batch_size := total_batch_size (data cfg) div int (mesh_size mesh),
                  micro_batch_size := micro_batch_size (data cfg) div int (mesh_size mesh)\<rparr>\<rparr>"
    by (auto simp: normalize_config_bsz_def Let_def split: if_splits)
  with c show ?thesis by simp
qed

text \<open>
  Claim C7, as amended. Initialization replaces the total and the micro batch size of the
  configuration it was passed by their quotients by the mesh size and changes no other
  field; from then on the configuration is not modified: a training step, a validation
  step, a checkpoint and the whole epoch loop leave every field of it as it was.
\<close>

theorem config_after_init:
  "(init fw cfg mesh = Inr self0
      \<longrightarrow> config self0 =
            cfg\<lparr>data := (data cfg)
                  \<lparr>total_batch_size := total_batch_size (data cfg) div int (mesh_size mesh),
                   micro_batch_size := micro_batch_size (data cfg) div int (mesh_size mesh)\<rparr>\<rparr>)
   \<and> (training_step fw self ps b = Inr (m, self1) \<longrightarrow> config self1 = config self)
   \<and> config (snd (validation_step fw self ps b)) = config self
   \<and> config (snd (save_checkpoint fw self step)) = config self
   \<and> (fit fw sched self = Inr (self2, global_step, events) \<longrightarrow> config self2 = config self)"
  using init_config [of fw cfg mesh self0] training_step_config [of fw self ps b m self1]
    validation_step_config [of fw self ps b] save_checkpoint_config [of fw self step]
    fit_config [of fw sched self self2 global_step events]
  by blast

text \<open>
  The example configuration on a mesh of two, and one training step, validation step,
  checkpoint and run of one epoch of the example trainer.
\<close>

theorem config_after_init_witness:
  "total_batch_size (data (config (projr (init example_framework example_config example_mesh)))) = 4
   \<and> micro_batch_size (data (config (projr (init example_framework example_config example_mesh)))) = 2
   \<and> config (snd (projr (training_step example_framework example_trainer example_peers
                            example_batch)))
       = config example_trainer
   \<and> config (snd (validation_step example_framework example_trainer example_peers example_batch))
       = config example_trainer
   \<and> config (snd (save_checkpoint example_framework example_trainer 1)) = config example_trainer
   \<and> config (fst (projr (fit example_framework example_schedule example_trainer)))
       = config example_trainer"
proof -
  let ?i = "init example_framework example_config example_mesh"
  let ?t = "training_step example_framework example_trainer example_peers example_batch"
  let ?f = "fit example_framework example_schedule example_trainer"
  have i: "?i = Inr (projr ?i)"
    by (simp add: init_def build_dataloader_def normalize_config_bsz_def example_config_def
        example_mesh_def py_str_def Let_def split: prod.splits)
  have t: "?t = Inr (fst (projr ?t), snd (projr ?t))"
    by (simp add: training_step_def split_batch_def example_trainer_def example_config_def
        Let_def split: prod.splits)
  have "\<not> isl ?f"
    by code_simp
  then have f: "?f = Inr (fst (projr ?f), fst (snd (projr ?f)), snd (snd (projr ?f)))"
    by (cases ?f) simp_all
  from config_after_init
         [of example_framework example_config example_mesh "projr ?i" example_trainer
             example_peers example_batch "fst (projr ?t)" "snd (projr ?t)" 1 example_schedule
             "fst (projr ?f)" "fst (snd (projr ?f))" "snd (snd (projr ?f))"]
    i t f
  show ?thesis
    by (simp add: example_config_def example_mesh_def)
qed

text \<open>
  Claim C7 as stated fails at initialization: on a mesh of two devices the configured
  total batch size 8 is overwritten with 4, so the trainer's configuration is no longer
  the one that was passed in.
\<close>

theorem config_after_init_counterexample:
  "total_batch_size (data example_config) = 8
   \<and> total_batch_size (data (config (projr (init example_framework example_config example_mesh)))) = 4
   \<and> config (projr (init example_framework example_config example_mesh)) \<noteq> example_config"
  by (simp add: init_def build_dataloader_def normalize_config_bsz_def example_config_def
        example_mesh_def py_str_def Let_def split: prod.splits)

end
